theory Spec2Isabelle
  imports Complex_Main "HOL-Library.Multiset"
begin

section \<open>Data model of the gem grid (core/GemGrid.js, core/Gem.js, utils/Constants.js)\<close>

text \<open>
  \<^verbatim>\<open>GEM_TYPES\<close> has six keys; \<^verbatim>\<open>Object.keys(GEM_TYPES)\<close> lists them in this order.
\<close>

datatype gem_type = BLUE | GREEN | RED | YELLOW | PURPLE | WHITE

definition allTypes :: "gem_type list" where
  "allTypes = [BLUE, GREEN, RED, YELLOW, PURPLE, WHITE]"

text \<open>
  A \<^verbatim>\<open>Gem\<close> is a mutable object that several places hold at once (the grid array, the
  selection, the match lists), so gems live in an explicit store: a reference is an index
  into the list \<open>heap\<close>, and \<^verbatim>\<open>new Gem(...)\<close> appends to it. Of a gem's fields the model
  keeps the type and the grid coordinates; pixel position, alpha and the highlight flags
  belong to the presentation. A cell of the grid array holds a reference or \<^verbatim>\<open>null\<close>.
\<close>

type_synonym ref = nat

type_synonym cell = "ref option"

record gem =
  gemType :: gem_type
  gridX :: nat
  gridY :: nat

text \<open>
  The state of a \<^verbatim>\<open>GemGrid\<close>: \<open>gems\<close> is \<^verbatim>\<open>this.gems\<close>, indexed \<^verbatim>\<open>[x][y]\<close> (a list of columns).
  \<open>drawn\<close> counts the calls of \<^verbatim>\<open>Math.random()\<close> so far; the values drawn come from an
  oracle \<open>rnd\<close> that the operations take as a parameter.
\<close>

record grid =
  width :: nat
  height :: nat
  gems :: "cell list list"
  heap :: "gem list"
  selectedGem :: "ref option"
  canInput :: bool
  drawn :: nat

text \<open>
  The only exception the code modelled here can raise: a property read or write on \<^verbatim>\<open>null\<close>
  or \<^verbatim>\<open>undefined\<close>, or a call of a member that is \<^verbatim>\<open>undefined\<close>.
\<close>

datatype error = TypeError

subsection \<open>The grid array with JavaScript's indexing\<close>

text \<open>
  \<^verbatim>\<open>this.gems[x][y]\<close> raises when \<^verbatim>\<open>this.gems[x]\<close> is undefined, and reads \<^verbatim>\<open>undefined\<close> (falsy,
  like \<^verbatim>\<open>null\<close>) past the end of a column. \<^verbatim>\<open>this.gems[x][y] = v\<close> raises likewise, and
  extends the column when \<open>y\<close> is past its end.
\<close>

definition getCell :: "cell list list \<Rightarrow> nat \<Rightarrow> nat \<Rightarrow> error + cell" where
  "getCell gs x y =
     (if x < length gs
      then Inr (if y < length (gs ! x) then gs ! x ! y else None)
      else Inl TypeError)"

definition setCell :: "cell list list \<Rightarrow> nat \<Rightarrow> nat \<Rightarrow> cell \<Rightarrow> error + cell list list" where
  "setCell gs x y v =
     (if x < length gs
      then Inr (gs[x := (gs ! x @ replicate (Suc y - length (gs ! x)) None)[y := v]])
      else Inl TypeError)"

subsection \<open>Coordinates\<close>

definition isValidGridPosition :: "grid \<Rightarrow> int \<times> int \<Rightarrow> bool" where
  "isValidGridPosition s gridPos =
     (fst gridPos \<ge> 0 \<and> fst gridPos < int (width s) \<and>
      snd gridPos \<ge> 0 \<and> snd gridPos < int (height s))"

definition getGemAt :: "grid \<Rightarrow> int \<Rightarrow> int \<Rightarrow> error + cell" where
  "getGemAt s x y =
     (if isValidGridPosition s (x, y)
      then getCell (gems s) (nat x) (nat y)
      else Inr None)"

section \<open>Matches and their score (scenes/Game.js)\<close>

text \<open>
  A match object \<^verbatim>\<open>{gems, type}\<close>. The raw runs are tagged horizontal or vertical, a
  consolidated pattern with what \<^verbatim>\<open>identifyPattern\<close> returns.
\<close>

datatype match_type = horizontal | vertical | L_shape | T_shape | cross | special

record match =
  mgems :: "cell list"
  mtype :: match_type

text \<open>
  \<^verbatim>\<open>Game.calculateBasePoints\<close>: 100 points, doubled for each gem beyond the third.
  JavaScript numbers are idealised: integers here, reals for the multipliers.
\<close>

definition calculateBasePoints :: "match \<Rightarrow> int" where
  "calculateBasePoints m =
     (let points = 100;
          extraGems = int (length (mgems m)) - 3
      in if extraGems > 0 then points * 2 ^ nat extraGems else points)"

text \<open>\<^verbatim>\<open>Game.calculateComboMultiplier\<close>; the argument is \<^verbatim>\<open>this.combo\<close>.\<close>

definition calculateComboMultiplier :: "nat \<Rightarrow> real" where
  "calculateComboMultiplier combo =
     (if combo = 0 then 1.0 else 1.0 + (log 2 (real combo + 1) * 0.5))"

section \<open>Loops\<close>

text \<open>
  A \<^verbatim>\<open>for\<close> or \<^verbatim>\<open>forEach\<close> loop over the items \<open>is\<close> whose body updates the loop's
  variables \<open>st\<close>; an exception in the body ends the loop.
\<close>

fun forEach :: "'i list \<Rightarrow> ('i \<Rightarrow> 'st \<Rightarrow> error + 'st) \<Rightarrow> 'st \<Rightarrow> error + 'st" where
  "forEach [] body st = Inr st"
| "forEach (i # is) body st =
     (case body i st of Inl e \<Rightarrow> Inl e | Inr st' \<Rightarrow> forEach is body st')"

text \<open>
  A loop whose body may \<^verbatim>\<open>return true\<close> out of the enclosing function; when no item does,
  the code after the loop returns \<^verbatim>\<open>false\<close>.
\<close>

fun firstHit :: "'i list \<Rightarrow> ('i \<Rightarrow> 'st \<Rightarrow> error + (bool \<times> 'st)) \<Rightarrow> 'st \<Rightarrow> error + (bool \<times> 'st)" where
  "firstHit [] body st = Inr (False, st)"
| "firstHit (i # is) body st =
     (case body i st of
        Inl e \<Rightarrow> Inl e
      | Inr (found, st') \<Rightarrow> if found then Inr (True, st') else firstHit is body st')"

section \<open>The scene of a grid (scenes/Game.js, systems/AudioManager.js)\<close>

text \<open>
  A \<^verbatim>\<open>GemGrid\<close> keeps the scene it was constructed with, and two of the operations modelled
  here call into it: \<^verbatim>\<open>processMatches\<close> calls \<^verbatim>\<open>this.scene.updateScore(matches)\<close> if the scene
  has a member \<^verbatim>\<open>updateScore\<close>, and \<^verbatim>\<open>swapGems\<close> calls
  \<^verbatim>\<open>this.scene.audioManager.playGemSwap()\<close> if the scene has an audio manager. An exception
  of either call ends the grid operation that made it. The model keeps of a scene what
  decides whether these calls return: \<open>updateScore\<close> is \<open>None\<close> for a scene without the
  member, and otherwise says for each argument whether the call returns or raises;
  \<open>audioManager\<close> is \<open>None\<close> for a scene without an audio manager, and otherwise lists the
  methods that the manager has.
\<close>

record scene =
  updateScore :: "(match list \<Rightarrow> error + unit) option"
  audioManager :: "string list option"

text \<open>
  A call \<^verbatim>\<open>obj.name()\<close> of a sound effect: a method that the object has plays and returns; a
  name that the object does not define reads as \<^verbatim>\<open>undefined\<close>, and calling it raises.
\<close>

definition callMethod :: "string list \<Rightarrow> string \<Rightarrow> error + unit" where
  "callMethod obj name = (if name \<in> set obj then Inr () else Inl TypeError)"

text \<open>The call of a member that the receiving object does not define.\<close>

definition notAFunction :: "error + 'a" where
  "notAFunction = Inl TypeError"

text \<open>The methods of class \<^verbatim>\<open>AudioManager\<close>, in the order of systems/AudioManager.js.\<close>

definition AudioManager :: "string list" where
  "AudioManager =
     [''setupSoundConfigs'', ''preloadSounds'', ''playGemSelect'', ''playMatchSound'',
      ''playComboSound'', ''playGemLand'', ''playSound'', ''destroy'']"

text \<open>
  \<^verbatim>\<open>Game.checkForSpecialPatterns\<close>: its first statement is
  \<^verbatim>\<open>const matchGrid = this.convertMatchToGrid(match)\<close>, and neither class \<^verbatim>\<open>Game\<close> nor any other
  source of the repository defines \<^verbatim>\<open>convertMatchToGrid\<close>, so the statement raises and the
  rest of the body is never reached.
\<close>

definition checkForSpecialPatterns :: "match \<Rightarrow> error + real" where
  "checkForSpecialPatterns m = notAFunction"

text \<open>
  \<^verbatim>\<open>Game.showFloatingScore\<close>: its first statement is
  \<^verbatim>\<open>const center = this.calculateMatchCenter(match)\<close>, another method that class \<^verbatim>\<open>Game\<close>
  does not define.
\<close>

definition showFloatingScore :: "match \<Rightarrow> int \<Rightarrow> error + unit" where
  "showFloatingScore m points = notAFunction"

text \<open>
  The body of the loop of \<^verbatim>\<open>Game.updateScore\<close> for one match; the loop's variable is
  \<^verbatim>\<open>pointsEarned\<close>, and \<open>combo\<close> is \<^verbatim>\<open>this.combo\<close>.
\<close>

definition scoreMatch :: "nat \<Rightarrow> match \<Rightarrow> int \<Rightarrow> error + int" where
  "scoreMatch combo m pointsEarned =
     (let basePoints = calculateBasePoints m;
          comboMultiplier = calculateComboMultiplier combo
      in case checkForSpecialPatterns m of
           Inl e \<Rightarrow> Inl e
         | Inr patternBonus \<Rightarrow>
             (let matchPoints = \<lfloor>real_of_int basePoints * comboMultiplier * patternBonus\<rfloor>
              in case showFloatingScore m matchPoints of
                   Inl e \<Rightarrow> Inl e
                 | Inr _ \<Rightarrow> Inr (pointsEarned + matchPoints)))"

text \<open>
  \<^verbatim>\<open>Game.updateScore\<close>, for a scene whose combo counter is \<open>combo\<close>. After the loop it adds
  the points to the score, starts the counter animation (\<^verbatim>\<open>updateScoreDisplay\<close>) and calls
  \<^verbatim>\<open>this.checkScoreMilestones()\<close>, which no source of the repository defines.
\<close>

definition Game_updateScore :: "nat \<Rightarrow> match list \<Rightarrow> error + unit" where
  "Game_updateScore combo matches =
     (case forEach matches (scoreMatch combo) 0 of
        Inl e \<Rightarrow> Inl e
      | Inr pointsEarned \<Rightarrow> notAFunction)"

text \<open>
  The \<^verbatim>\<open>Game\<close> scene, the only scene of the repository that constructs a grid (\<^verbatim>\<open>new GemGrid(this, ...)\<close> in
  \<^verbatim>\<open>initializeGameComponents\<close>, followed by \<^verbatim>\<open>this.audioManager = new AudioManager(this)\<close>).
\<close>

definition Game :: "nat \<Rightarrow> scene" where
  "Game combo = \<lparr>updateScore = Some (Game_updateScore combo), audioManager = Some AudioManager\<rparr>"

text \<open>A scene with neither member.\<close>

definition bareScene :: scene where
  "bareScene = \<lparr>updateScore = None, audioManager = None\<rparr>"

section \<open>Grid operations (core/GemGrid.js)\<close>

subsection \<open>Part 5: adjacency\<close>

definition directions :: "(int \<times> int) list" where
  "directions = [(0, - 1), (1, 0), (0, 1), (- 1, 0)]"

fun adjacentIn :: "grid \<Rightarrow> int \<Rightarrow> int \<Rightarrow> (int \<times> int) list \<Rightarrow> error + cell list" where
  "adjacentIn s x y [] = Inr []"
| "adjacentIn s x y (dir # dirs) =
     (let newX = x + fst dir; newY = y + snd dir
      in if isValidGridPosition s (newX, newY)
         then (case getCell (gems s) (nat newX) (nat newY) of
                 Inl e \<Rightarrow> Inl e
               | Inr c \<Rightarrow> (case adjacentIn s x y dirs of
                             Inl e \<Rightarrow> Inl e
                           | Inr cs \<Rightarrow> Inr (c # cs)))
         else adjacentIn s x y dirs)"

definition getAdjacentGems :: "grid \<Rightarrow> int \<Rightarrow> int \<Rightarrow> error + cell list" where
  "getAdjacentGems s x y = adjacentIn s x y directions"

subsection \<open>Part 3: match detection\<close>

text \<open>\<^verbatim>\<open>gem?.gemType\<close>: \<open>None\<close> is \<^verbatim>\<open>undefined\<close> (and the initial \<^verbatim>\<open>null\<close> of \<^verbatim>\<open>currentType\<close>).\<close>

definition typeOf :: "grid \<Rightarrow> cell \<Rightarrow> gem_type option" where
  "typeOf s c = map_option (\<lambda>g. gemType (heap s ! g)) c"

text \<open>The check that closes a sequence: \<^verbatim>\<open>if (matchingGems.length >= 3) matches.push(...)\<close>.\<close>

definition pushRun :: "match_type \<Rightarrow> cell list \<Rightarrow> match list \<Rightarrow> match list" where
  "pushRun ty matchingGems matches =
     (if length matchingGems \<ge> 3
      then matches @ [\<lparr>mgems = matchingGems, mtype = ty\<rparr>]
      else matches)"

text \<open>
  The body of the inner scanning loop, on the cell \<open>gem\<close> just read. The loop's variables are
  \<^verbatim>\<open>matchingGems\<close>, \<^verbatim>\<open>currentType\<close> and \<^verbatim>\<open>matches\<close>. A gem's type is never \<^verbatim>\<open>undefined\<close>, so
  \<^verbatim>\<open>currentType === gem.gemType\<close> fails while \<^verbatim>\<open>currentType\<close> is \<^verbatim>\<open>null\<close> or \<^verbatim>\<open>undefined\<close>.
\<close>

definition scanStep ::
  "grid \<Rightarrow> match_type \<Rightarrow> cell \<Rightarrow> cell list \<times> gem_type option \<times> match list
     \<Rightarrow> cell list \<times> gem_type option \<times> match list" where
  "scanStep s ty gem st =
     (case st of (matchingGems, currentType, matches) \<Rightarrow>
        if gem \<noteq> None \<and> currentType = typeOf s gem
        then (matchingGems @ [gem], currentType, matches)
        else ([gem], typeOf s gem, pushRun ty matchingGems matches))"

text \<open>
  One row or column: \<open>cellAt\<close> reads its \<open>i\<close>-th cell. After the loop comes the check of
  the last sequence.
\<close>

definition scanLine ::
  "grid \<Rightarrow> match_type \<Rightarrow> (nat \<Rightarrow> error + cell) \<Rightarrow> nat \<Rightarrow> match list \<Rightarrow> error + match list" where
  "scanLine s ty cellAt n matches =
     (case forEach [0..<n]
             (\<lambda>i st. case cellAt i of Inl e \<Rightarrow> Inl e | Inr gem \<Rightarrow> Inr (scanStep s ty gem st))
             ([], None, matches) of
        Inl e \<Rightarrow> Inl e
      | Inr (matchingGems, currentType, matches') \<Rightarrow> Inr (pushRun ty matchingGems matches'))"

text \<open>The first half of \<^verbatim>\<open>findMatches\<close>: the horizontal runs, then the vertical ones.\<close>

definition findRuns :: "grid \<Rightarrow> error + match list" where
  "findRuns s =
     (case forEach [0..<height s]
             (\<lambda>y. scanLine s horizontal (\<lambda>x. getCell (gems s) x y) (width s)) [] of
        Inl e \<Rightarrow> Inl e
      | Inr matches \<Rightarrow>
          forEach [0..<width s]
            (\<lambda>x. scanLine s vertical (\<lambda>y. getCell (gems s) x y) (height s)) matches)"

text \<open>The key \<^verbatim>\<open>`${gem.gridX},${gem.gridY}`\<close> of a gem, as a pair.\<close>

definition keyOf :: "grid \<Rightarrow> ref \<Rightarrow> nat \<times> nat" where
  "keyOf s g = (gridX (heap s ! g), gridY (heap s ! g))"

type_synonym match_map = "nat \<times> nat \<Rightarrow> (ref \<times> match_type list) option"

text \<open>The first loop of \<^verbatim>\<open>consolidateMatches\<close>; reading a coordinate of \<^verbatim>\<open>null\<close> raises.\<close>

fun addToMap :: "grid \<Rightarrow> match_type \<Rightarrow> cell \<Rightarrow> match_map \<Rightarrow> error + match_map" where
  "addToMap s ty None matchMap = Inl TypeError"
| "addToMap s ty (Some gem) matchMap =
     (let key = keyOf s gem
      in Inr (case matchMap key of
                None \<Rightarrow> matchMap(key \<mapsto> (gem, [ty]))
              | Some (g, matchTypes) \<Rightarrow> matchMap(key \<mapsto> (g, matchTypes @ [ty]))))"

definition buildMatchMap :: "grid \<Rightarrow> match list \<Rightarrow> error + match_map" where
  "buildMatchMap s matches =
     forEach matches (\<lambda>m. forEach (mgems m) (addToMap s (mtype m))) Map.empty"

text \<open>The gems next to a visited gem that the search goes on to: \<^verbatim>\<open>adjGem && matchMap.has(...)\<close>.\<close>

definition inMatchMap :: "grid \<Rightarrow> match_map \<Rightarrow> cell list \<Rightarrow> ref list" where
  "inMatchMap s matchMap adjacent = [g. Some g \<leftarrow> adjacent, matchMap (keyOf s g) \<noteq> None]"

text \<open>The references held by the cells of the grid array.\<close>

definition cellRefs :: "grid \<Rightarrow> ref set" where
  "cellRefs s = {g. \<exists>col \<in> set (gems s). Some g \<in> set col}"

lemma getCell_cellRefs: "getCell (gems s) x y = Inr (Some g) \<Longrightarrow> g \<in> cellRefs s"
  by (auto simp: getCell_def cellRefs_def split: if_splits) (metis nth_mem)

lemma adjacentIn_cellRefs:
  "adjacentIn s x y dirs = Inr cs \<Longrightarrow> Some g \<in> set cs \<Longrightarrow> g \<in> cellRefs s"
  by (induction dirs arbitrary: cs)
     (auto simp: Let_def split: if_splits sum.splits dest: getCell_cellRefs)

lemma inMatchMap_cellRefs:
  "getAdjacentGems s x y = Inr adj \<Longrightarrow> set (inMatchMap s mm adj) \<subseteq> cellRefs s"
  by (auto simp: inMatchMap_def getAdjacentGems_def dest: adjacentIn_cellRefs)

lemma finite_cellRefs: "finite (cellRefs s)"
proof -
  have "cellRefs s \<subseteq> (\<Union>col \<in> set (gems s). the ` set col)"
    by (force simp: cellRefs_def)
  then show ?thesis by (rule finite_subset) simp
qed

text \<open>
  \<^verbatim>\<open>findConnectedGems\<close> is a recursive depth-first search that adds to the set
  \<^verbatim>\<open>connectedGems\<close>. Here the gems still to be visited are a stack \<open>pending\<close>: visiting a
  gem pushes its neighbours in the order the recursion would call them, so the gems enter
  \<open>connectedGems\<close> (a JavaScript \<^verbatim>\<open>Set\<close>, kept in insertion order) in the same order.
\<close>

function findConnectedGems :: "grid \<Rightarrow> match_map \<Rightarrow> ref list \<Rightarrow> ref list \<Rightarrow> error + ref list" where
  "findConnectedGems s matchMap [] connectedGems = Inr connectedGems"
| "findConnectedGems s matchMap (gem # pending) connectedGems =
     (if gem \<in> set connectedGems
      then findConnectedGems s matchMap pending connectedGems
      else (case getAdjacentGems s (int (gridX (heap s ! gem))) (int (gridY (heap s ! gem))) of
              Inl e \<Rightarrow> Inl e
            | Inr adjacent \<Rightarrow>
                findConnectedGems s matchMap (inMatchMap s matchMap adjacent @ pending)
                  (connectedGems @ [gem])))"
  by pat_completeness auto
termination
proof (relation "measures [\<lambda>(s, mm, pending, conn). card ((cellRefs s \<union> set pending) - set conn),
                           \<lambda>(s, mm, pending, conn). length pending]", goal_cases)
  case 1
  show ?case by simp
next
  case (2 s mm gem pending conn)
  then have "(cellRefs s \<union> set pending) - set conn = (cellRefs s \<union> set (gem # pending)) - set conn"
    by auto
  then show ?case by simp
next
  case (3 s mm gem pending conn adj)
  have sub: "set (inMatchMap s mm adj) \<subseteq> cellRefs s"
    using 3(2) by (rule inMatchMap_cellRefs)
  have "(cellRefs s \<union> set (inMatchMap s mm adj @ pending)) - set (conn @ [gem])
        \<subset> (cellRefs s \<union> set (gem # pending)) - set conn"
    using sub 3(1) by auto
  moreover have "finite ((cellRefs s \<union> set (gem # pending)) - set conn)"
    by (simp add: finite_cellRefs)
  ultimately have "card ((cellRefs s \<union> set (inMatchMap s mm adj @ pending)) - set (conn @ [gem]))
        < card ((cellRefs s \<union> set (gem # pending)) - set conn)"
    by (rule psubset_card_mono [rotated])
  then show ?case by simp
qed

text \<open>\<^verbatim>\<open>Math.min(...)\<close> and \<^verbatim>\<open>Math.max(...)\<close> of a non-empty array.\<close>

fun minOf :: "nat list \<Rightarrow> nat" where
  "minOf [] = 0"
| "minOf (x # xs) = fold min xs x"

fun maxOf :: "nat list \<Rightarrow> nat" where
  "maxOf [] = 0"
| "maxOf (x # xs) = fold max xs x"

text \<open>
  \<^verbatim>\<open>identifyPattern\<close>. It is only called on a non-empty set; on an empty one the bounds
  would be infinite and the result \<^verbatim>\<open>'special'\<close>.
\<close>

definition identifyPattern :: "grid \<Rightarrow> ref list \<Rightarrow> match_type" where
  "identifyPattern s gemArray =
     (if gemArray = [] then special
      else
        let minX = minOf (map (\<lambda>g. gridX (heap s ! g)) gemArray);
            maxX = maxOf (map (\<lambda>g. gridX (heap s ! g)) gemArray);
            minY = minOf (map (\<lambda>g. gridY (heap s ! g)) gemArray);
            maxY = maxOf (map (\<lambda>g. gridY (heap s ! g)) gemArray);
            w = int maxX - int minX + 1;
            h = int maxY - int minY + 1
        in if w = 3 \<and> h = 3 then L_shape
           else if (w = 3 \<and> h = 2) \<or> (w = 2 \<and> h = 3) then T_shape
           else if w = 3 \<and> h = 3 then cross
           else special)"

text \<open>\<^verbatim>\<open>match.gems.some(gem => processedGems.has(key))\<close>: stops at the first hit.\<close>

fun someProcessed :: "grid \<Rightarrow> (nat \<times> nat) set \<Rightarrow> cell list \<Rightarrow> error + bool" where
  "someProcessed s processedGems [] = Inr False"
| "someProcessed s processedGems (None # gs) = Inl TypeError"
| "someProcessed s processedGems (Some g # gs) =
     (if keyOf s g \<in> processedGems then Inr True else someProcessed s processedGems gs)"

text \<open>The loop that collects \<^verbatim>\<open>intersectingGems\<close> for one match.\<close>

fun intersecting :: "grid \<Rightarrow> match_map \<Rightarrow> cell \<Rightarrow> ref list \<Rightarrow> error + ref list" where
  "intersecting s matchMap None intersectingGems = Inl TypeError"
| "intersecting s matchMap (Some gem) intersectingGems =
     (case matchMap (keyOf s gem) of
        None \<Rightarrow> Inl TypeError
      | Some (g, matchTypes) \<Rightarrow>
          if length matchTypes > 1
          then findConnectedGems s matchMap [gem] intersectingGems
          else Inr intersectingGems)"

text \<open>Marking gems as processed; every gem here has been read before, so none is \<^verbatim>\<open>null\<close>.\<close>

definition markProcessed :: "grid \<Rightarrow> cell list \<Rightarrow> (nat \<times> nat) set \<Rightarrow> (nat \<times> nat) set" where
  "markProcessed s gs processedGems = processedGems \<union> set [keyOf s g. Some g \<leftarrow> gs]"

text \<open>The body of the second loop of \<^verbatim>\<open>consolidateMatches\<close>.\<close>

definition consolidateStep ::
  "grid \<Rightarrow> match_map \<Rightarrow> match \<Rightarrow> match list \<times> (nat \<times> nat) set
     \<Rightarrow> error + (match list \<times> (nat \<times> nat) set)" where
  "consolidateStep s matchMap m st =
     (case st of (consolidatedMatches, processedGems) \<Rightarrow>
        case someProcessed s processedGems (mgems m) of
          Inl e \<Rightarrow> Inl e
        | Inr True \<Rightarrow> Inr (consolidatedMatches, processedGems)
        | Inr False \<Rightarrow>
            (case forEach (mgems m) (intersecting s matchMap) [] of
               Inl e \<Rightarrow> Inl e
             | Inr intersectingGems \<Rightarrow>
                 if length intersectingGems > 0
                 then Inr (consolidatedMatches @
                             [\<lparr>mgems = map Some intersectingGems,
                               mtype = identifyPattern s intersectingGems\<rparr>],
                           markProcessed s (map Some intersectingGems) processedGems)
                 else Inr (consolidatedMatches @ [m],
                           markProcessed s (mgems m) processedGems)))"

definition consolidateMatches :: "grid \<Rightarrow> match list \<Rightarrow> error + match list" where
  "consolidateMatches s matches =
     (case buildMatchMap s matches of
        Inl e \<Rightarrow> Inl e
      | Inr matchMap \<Rightarrow>
          (case forEach matches (consolidateStep s matchMap) ([], {}) of
             Inl e \<Rightarrow> Inl e
           | Inr (consolidatedMatches, processedGems) \<Rightarrow> Inr consolidatedMatches))"

definition findMatches :: "grid \<Rightarrow> error + match list" where
  "findMatches s =
     (case findRuns s of Inl e \<Rightarrow> Inl e | Inr matches \<Rightarrow> consolidateMatches s matches)"

subsection \<open>Part 2: swapping\<close>

definition areGemsAdjacent :: "grid \<Rightarrow> ref \<Rightarrow> ref \<Rightarrow> bool" where
  "areGemsAdjacent s gem1 gem2 =
     (let xDiff = \<bar>int (gridX (heap s ! gem1)) - int (gridX (heap s ! gem2))\<bar>;
          yDiff = \<bar>int (gridY (heap s ! gem1)) - int (gridY (heap s ! gem2))\<bar>
      in (xDiff = 1 \<and> yDiff = 0) \<or> (xDiff = 0 \<and> yDiff = 1))"

text \<open>Assigning both grid coordinates of a gem.\<close>

definition setGridPos :: "gem list \<Rightarrow> ref \<Rightarrow> nat \<Rightarrow> nat \<Rightarrow> gem list" where
  "setGridPos h g x y = h[g := (h ! g)\<lparr>gridX := x, gridY := y\<rparr>]"

text \<open>
  The head of \<^verbatim>\<open>swapGems\<close>: the two gems exchange their coordinates, and each is written
  to the cell that its new coordinates name.
\<close>

definition exchangeGems :: "grid \<Rightarrow> ref \<Rightarrow> ref \<Rightarrow> error + grid" where
  "exchangeGems s gem1 gem2 =
     (let tempX = gridX (heap s ! gem1);
          tempY = gridY (heap s ! gem1);
          h1 = setGridPos (heap s) gem1 (gridX (heap s ! gem2)) (gridY (heap s ! gem2));
          h2 = setGridPos h1 gem2 tempX tempY
      in case setCell (gems s) (gridX (h2 ! gem1)) (gridY (h2 ! gem1)) (Some gem1) of
           Inl e \<Rightarrow> Inl e
         | Inr gs1 \<Rightarrow>
             (case setCell gs1 (gridX (h2 ! gem2)) (gridY (h2 ! gem2)) (Some gem2) of
                Inl e \<Rightarrow> Inl e
              | Inr gs2 \<Rightarrow> Inr (s\<lparr>gems := gs2, heap := h2\<rparr>)))"

text \<open>
  \<^verbatim>\<open>swapGems\<close>, without the move animation: after the exchange it plays the swap sound,
  \<^verbatim>\<open>if (this.scene.audioManager) this.scene.audioManager.playGemSwap()\<close>. An exception of that
  call reaches the caller with the exchange already made.
\<close>

definition swapGems :: "scene \<Rightarrow> grid \<Rightarrow> ref \<Rightarrow> ref \<Rightarrow> error + grid" where
  "swapGems sc s gem1 gem2 =
     (case exchangeGems s gem1 gem2 of
        Inl e \<Rightarrow> Inl e
      | Inr s' \<Rightarrow>
          (case audioManager sc of
             None \<Rightarrow> Inr s'
           | Some manager \<Rightarrow>
               (case callMethod manager ''playGemSwap'' of
                  Inl e \<Rightarrow> Inl e
                | Inr _ \<Rightarrow> Inr s')))"

definition deselectGem :: "grid \<Rightarrow> grid" where
  "deselectGem s = (if selectedGem s \<noteq> None then s\<lparr>selectedGem := None\<rparr> else s)"

text \<open>
  \<^verbatim>\<open>wouldCreateMatch\<close>: the probe exchanges the two gems' coordinates, looks for matches and
  writes coordinates back. It never writes to the grid array. A \<^verbatim>\<open>null\<close> argument raises at
  the first coordinate read.
\<close>

fun wouldCreateMatch :: "grid \<Rightarrow> cell \<Rightarrow> cell \<Rightarrow> error + (bool \<times> grid)" where
  "wouldCreateMatch s (Some gem1) (Some gem2) =
     (let tempX = gridX (heap s ! gem1);
          tempY = gridY (heap s ! gem1);
          h1 = setGridPos (heap s) gem1 (gridX (heap s ! gem2)) (gridY (heap s ! gem2));
          h2 = setGridPos h1 gem2 tempX tempY
      in case findMatches (s\<lparr>heap := h2\<rparr>) of
           Inl e \<Rightarrow> Inl e
         | Inr matches \<Rightarrow>
             (let h3 = setGridPos h2 gem1 tempX tempY;
                  h4 = setGridPos h3 gem2 (gridX (h3 ! gem1)) (gridY (h3 ! gem1))
              in Inr (length matches > 0, s\<lparr>heap := h4\<rparr>)))"
| "wouldCreateMatch s gem1 gem2 = Inl TypeError"

subsection \<open>Part 5: deadlock check\<close>

definition hasValidMoves :: "grid \<Rightarrow> error + (bool \<times> grid)" where
  "hasValidMoves s =
     firstHit [0..<width s] (\<lambda>x.
       firstHit [0..<height s] (\<lambda>y st.
         case getAdjacentGems st (int x) (int y) of
           Inl e \<Rightarrow> Inl e
         | Inr adjacent \<Rightarrow>
             firstHit adjacent (\<lambda>adjGem st'.
               case getCell (gems st') x y of
                 Inl e \<Rightarrow> Inl e
               | Inr gem \<Rightarrow> wouldCreateMatch st' gem adjGem) st)) s"

subsection \<open>Part 3 and 4: removal, falling, refill\<close>

text \<open>
  \<^verbatim>\<open>removeMatches\<close>, without the destroy animation: each matched gem's cell, found by the
  gem's own coordinates, is set to \<^verbatim>\<open>null\<close>.
\<close>

definition removeGem :: "cell \<Rightarrow> grid \<Rightarrow> error + grid" where
  "removeGem gem s =
     (case gem of
        None \<Rightarrow> Inl TypeError
      | Some g \<Rightarrow>
          (case setCell (gems s) (gridX (heap s ! g)) (gridY (heap s ! g)) None of
             Inl e \<Rightarrow> Inl e
           | Inr gs \<Rightarrow> Inr (s\<lparr>gems := gs\<rparr>)))"

definition removeMatches :: "grid \<Rightarrow> match list \<Rightarrow> error + grid" where
  "removeMatches s matches = forEach matches (\<lambda>m. forEach (mgems m) removeGem) s"

text \<open>
  The body of the inner loop of \<^verbatim>\<open>handleFalling\<close>, at row \<open>y\<close> of column \<open>x\<close>; the loop's
  variables are \<^verbatim>\<open>fallDistance\<close> and the grid.
\<close>

definition fallStep :: "nat \<Rightarrow> nat \<Rightarrow> nat \<times> grid \<Rightarrow> error + (nat \<times> grid)" where
  "fallStep x y st =
     (case st of (fallDistance, s) \<Rightarrow>
        case getCell (gems s) x y of
          Inl e \<Rightarrow> Inl e
        | Inr None \<Rightarrow> Inr (fallDistance + 1, s)
        | Inr (Some gem) \<Rightarrow>
            if fallDistance > 0
            then (case setCell (gems s) x y None of
                    Inl e \<Rightarrow> Inl e
                  | Inr gs1 \<Rightarrow>
                      (case setCell gs1 x (y + fallDistance) (Some gem) of
                         Inl e \<Rightarrow> Inl e
                       | Inr gs2 \<Rightarrow>
                           Inr (fallDistance,
                                s\<lparr>gems := gs2,
                                  heap := (heap s)[gem := (heap s ! gem)
                                            \<lparr>gridY := gridY (heap s ! gem) + fallDistance\<rparr>]\<rparr>)))
            else Inr (fallDistance, s))"

text \<open>One column: rows from the bottom (\<open>height - 1\<close>) up to 0.\<close>

definition fallColumn :: "nat \<Rightarrow> grid \<Rightarrow> error + grid" where
  "fallColumn x s =
     (case forEach (rev [0..<height s]) (fallStep x) (0, s) of
        Inl e \<Rightarrow> Inl e
      | Inr (fallDistance, s') \<Rightarrow> Inr s')"

text \<open>The gravity pass: the loop of \<^verbatim>\<open>handleFalling\<close> over the columns, before the refill.\<close>

definition fallGems :: "grid \<Rightarrow> error + grid" where
  "fallGems s = forEach [0..<width s] fallColumn s"

text \<open>
  One of the two checks of \<^verbatim>\<open>getAvailableGemTypes\<close>: when the two cells have the same
  \<^verbatim>\<open>?.gemType\<close>, the first one's type becomes invalid. Two \<^verbatim>\<open>null\<close> cells compare equal and
  the read of the type then raises.
\<close>

definition excludeRun :: "grid \<Rightarrow> nat \<times> nat \<Rightarrow> nat \<times> nat \<Rightarrow> gem_type list \<Rightarrow> error + gem_type list" where
  "excludeRun s p1 p2 invalidTypes =
     (case getCell (gems s) (fst p1) (snd p1) of
        Inl e \<Rightarrow> Inl e
      | Inr c1 \<Rightarrow>
          (case getCell (gems s) (fst p2) (snd p2) of
             Inl e \<Rightarrow> Inl e
           | Inr c2 \<Rightarrow>
               if typeOf s c1 = typeOf s c2
               then (case c1 of
                       None \<Rightarrow> Inl TypeError
                     | Some g \<Rightarrow> Inr (invalidTypes @ [gemType (heap s ! g)]))
               else Inr invalidTypes))"

definition getAvailableGemTypes :: "grid \<Rightarrow> nat \<Rightarrow> nat \<Rightarrow> error + gem_type list" where
  "getAvailableGemTypes s x y =
     (if x < 2 \<and> y < 2 then Inr allTypes
      else
        case (if x \<ge> 2 then excludeRun s (x - 1, y) (x - 2, y) [] else Inr []) of
          Inl e \<Rightarrow> Inl e
        | Inr invalid1 \<Rightarrow>
            (case (if y \<ge> 2 then excludeRun s (x, y - 1) (x, y - 2) invalid1 else Inr invalid1) of
               Inl e \<Rightarrow> Inl e
             | Inr invalidTypes \<Rightarrow> Inr (filter (\<lambda>t. t \<notin> set invalidTypes) allTypes)))"

text \<open>
  \<^verbatim>\<open>createGemAt\<close>: \<^verbatim>\<open>Math.floor(Math.random() * n)\<close> is some index below \<open>n\<close>; the oracle
  \<open>rnd\<close> gives the number whose remainder it is. At most two of the six types are
  invalid, so the index is in range. The new gem is allocated at the end of the store.
\<close>

definition createGemAt :: "(nat \<Rightarrow> nat) \<Rightarrow> grid \<Rightarrow> nat \<Rightarrow> nat \<Rightarrow> error + (ref \<times> grid)" where
  "createGemAt rnd s x y =
     (case getAvailableGemTypes s x y of
        Inl e \<Rightarrow> Inl e
      | Inr availableTypes \<Rightarrow>
          (let newType = availableTypes ! (rnd (drawn s) mod length availableTypes);
               gem = length (heap s)
           in Inr (gem, s\<lparr>heap := heap s @ [\<lparr>gemType = newType, gridX = x, gridY = y\<rparr>],
                          drawn := Suc (drawn s)\<rparr>)))"

text \<open>The body of the inner loop of \<^verbatim>\<open>refillBoard\<close>.\<close>

definition refillStep :: "(nat \<Rightarrow> nat) \<Rightarrow> nat \<Rightarrow> nat \<Rightarrow> grid \<Rightarrow> error + grid" where
  "refillStep rnd x y s =
     (case getCell (gems s) x y of
        Inl e \<Rightarrow> Inl e
      | Inr (Some g) \<Rightarrow> Inr s
      | Inr None \<Rightarrow>
          (case createGemAt rnd s x y of
             Inl e \<Rightarrow> Inl e
           | Inr (gem, s1) \<Rightarrow>
               (case setCell (gems s1) x y (Some gem) of
                  Inl e \<Rightarrow> Inl e
                | Inr gs \<Rightarrow> Inr (s1\<lparr>gems := gs\<rparr>))))"

definition refillBoard :: "(nat \<Rightarrow> nat) \<Rightarrow> grid \<Rightarrow> error + grid" where
  "refillBoard rnd s =
     forEach [0..<width s] (\<lambda>x. forEach [0..<height s] (refillStep rnd x)) s"

definition handleFalling :: "(nat \<Rightarrow> nat) \<Rightarrow> grid \<Rightarrow> error + grid" where
  "handleFalling rnd s =
     (case fallGems s of Inl e \<Rightarrow> Inl e | Inr s1 \<Rightarrow> refillBoard rnd s1)"

text \<open>
  The first loop of \<^verbatim>\<open>processMatches\<close>, \<^verbatim>\<open>gem.setMatched(true)\<close> for every gem of every
  match: the flag belongs to the presentation, but the call raises on \<^verbatim>\<open>null\<close>.
\<close>

definition markMatched :: "match list \<Rightarrow> error + unit" where
  "markMatched matches =
     forEach matches (\<lambda>m. forEach (mgems m)
       (\<lambda>gem u. case gem of None \<Rightarrow> Inl TypeError | Some g \<Rightarrow> Inr u)) ()"

text \<open>\<^verbatim>\<open>if (this.scene.updateScore) this.scene.updateScore(matches)\<close>.\<close>

definition sceneUpdateScore :: "scene \<Rightarrow> match list \<Rightarrow> error + unit" where
  "sceneUpdateScore sc matches =
     (case updateScore sc of None \<Rightarrow> Inr () | Some f \<Rightarrow> f matches)"

text \<open>
  \<^verbatim>\<open>processMatches\<close>, without the animations. The cascade goes on for as long as the
  refilled board has matches, so the function is partial: \<open>None\<close> is a cascade that never
  ends, \<open>Some (Inl e)\<close> an exception, \<open>Some (Inr s')\<close> the grid it returns with.
\<close>

partial_function (option) processMatches ::
  "scene \<Rightarrow> (nat \<Rightarrow> nat) \<Rightarrow> grid \<Rightarrow> match list \<Rightarrow> (error + grid) option" where
  "processMatches sc rnd s matches =
     (case markMatched matches of
        Inl e \<Rightarrow> Some (Inl e)
      | Inr _ \<Rightarrow>
     (case sceneUpdateScore sc matches of
        Inl e \<Rightarrow> Some (Inl e)
      | Inr _ \<Rightarrow>
     (case removeMatches s matches of
        Inl e \<Rightarrow> Some (Inl e)
      | Inr s1 \<Rightarrow>
          (case handleFalling rnd s1 of
             Inl e \<Rightarrow> Some (Inl e)
           | Inr s2 \<Rightarrow>
               (case findMatches s2 of
                  Inl e \<Rightarrow> Some (Inl e)
                | Inr newMatches \<Rightarrow>
                    if length newMatches > 0
                    then processMatches sc rnd s2 newMatches
                    else Some (Inr s2))))))"

declare processMatches.simps [code]

text \<open>
  \<^verbatim>\<open>trySwapGems\<close>. An exception of \<^verbatim>\<open>swapGems\<close> or \<^verbatim>\<open>processMatches\<close> leaves the function at
  once: nothing that follows the call is run, neither the swap back nor
  \<^verbatim>\<open>this.canInput = true\<close>.
\<close>

definition trySwapGems ::
  "scene \<Rightarrow> (nat \<Rightarrow> nat) \<Rightarrow> grid \<Rightarrow> ref \<Rightarrow> ref \<Rightarrow> (error + grid) option" where
  "trySwapGems sc rnd s gem1 gem2 =
     (case swapGems sc (s\<lparr>canInput := False\<rparr>) gem1 gem2 of
        Inl e \<Rightarrow> Some (Inl e)
      | Inr s1 \<Rightarrow>
          (case findMatches s1 of
             Inl e \<Rightarrow> Some (Inl e)
           | Inr matches \<Rightarrow>
               if length matches > 0
               then (case processMatches sc rnd (deselectGem s1) matches of
                       None \<Rightarrow> None
                     | Some (Inl e) \<Rightarrow> Some (Inl e)
                     | Some (Inr s2) \<Rightarrow> Some (Inr (s2\<lparr>canInput := True\<rparr>)))
               else (case swapGems sc s1 gem2 gem1 of
                       Inl e \<Rightarrow> Some (Inl e)
                     | Inr s2 \<Rightarrow> Some (Inr ((deselectGem s2)\<lparr>canInput := True\<rparr>)))))"

subsection \<open>Part 5: reshuffle\<close>

text \<open>
  The body of the Fisher-Yates loop of \<^verbatim>\<open>shuffleGems\<close> at index \<open>i\<close>; \<open>allGems\<close> is
  \<^verbatim>\<open>this.gems.flat()\<close>, taken once before the loop.
\<close>

definition shuffleStep :: "(nat \<Rightarrow> nat) \<Rightarrow> cell list \<Rightarrow> nat \<Rightarrow> grid \<Rightarrow> error + grid" where
  "shuffleStep rnd allGems i s =
     (let j = rnd (drawn s) mod (i + 1)
      in case (allGems ! i, allGems ! j) of
           (Some gi, Some gj) \<Rightarrow>
             (let tempX = gridX (heap s ! gi);
                  tempY = gridY (heap s ! gi);
                  h1 = setGridPos (heap s) gi (gridX (heap s ! gj)) (gridY (heap s ! gj));
                  h2 = setGridPos h1 gj tempX tempY
              in case setCell (gems s) (gridX (h2 ! gi)) (gridY (h2 ! gi)) (Some gi) of
                   Inl e \<Rightarrow> Inl e
                 | Inr gs1 \<Rightarrow>
                     (case setCell gs1 (gridX (h2 ! gj)) (gridY (h2 ! gj)) (Some gj) of
                        Inl e \<Rightarrow> Inl e
                      | Inr gs2 \<Rightarrow> Inr (s\<lparr>gems := gs2, heap := h2, drawn := Suc (drawn s)\<rparr>)))
         | _ \<Rightarrow> Inl TypeError)"

definition shuffleGems :: "(nat \<Rightarrow> nat) \<Rightarrow> grid \<Rightarrow> error + grid" where
  "shuffleGems rnd s =
     (let allGems = concat (gems s)
      in forEach (rev [1..<length allGems]) (shuffleStep rnd allGems) s)"

text \<open>
  The \<^verbatim>\<open>do ... while\<close> loop of \<^verbatim>\<open>reshuffleBoard\<close>. It has no counter and no other exit than
  its test, so it is partial: \<open>None\<close> is a loop that never ends.
\<close>

partial_function (option) reshuffleLoop :: "(nat \<Rightarrow> nat) \<Rightarrow> grid \<Rightarrow> (error + grid) option" where
  "reshuffleLoop rnd s =
     (case shuffleGems rnd s of
        Inl e \<Rightarrow> Some (Inl e)
      | Inr s1 \<Rightarrow>
          (case hasValidMoves s1 of
             Inl e \<Rightarrow> Some (Inl e)
           | Inr (valid, s2) \<Rightarrow>
               if \<not> valid then reshuffleLoop rnd s2
               else (case findMatches s2 of
                       Inl e \<Rightarrow> Some (Inl e)
                     | Inr matches \<Rightarrow>
                         if length matches > 0 then reshuffleLoop rnd s2
                         else Some (Inr s2))))"

declare reshuffleLoop.simps [code]

text \<open>\<^verbatim>\<open>reshuffleBoard\<close>, without the fade animations.\<close>

definition reshuffleBoard :: "(nat \<Rightarrow> nat) \<Rightarrow> grid \<Rightarrow> (error + grid) option" where
  "reshuffleBoard rnd s =
     (case reshuffleLoop rnd (s\<lparr>canInput := False\<rparr>) of
        None \<Rightarrow> None
      | Some (Inl e) \<Rightarrow> Some (Inl e)
      | Some (Inr s') \<Rightarrow> Some (Inr (s'\<lparr>canInput := True\<rparr>)))"

section \<open>Notions for the statements and their proofs\<close>

text \<open>The gems on the board, as a multiset of references: those of a column, and of the grid.\<close>

definition colTokens :: "cell list \<Rightarrow> ref multiset" where
  "colTokens col = mset [g. Some g \<leftarrow> col]"

definition tokens :: "cell list list \<Rightarrow> ref multiset" where
  "tokens gs = sum_list (map colTokens gs)"

definition optTok :: "cell \<Rightarrow> ref multiset" where
  "optTok c = (case c of None \<Rightarrow> {#} | Some g \<Rightarrow> {#g#})"

text \<open>Reading and writing one column, as \<open>getCell\<close> and \<open>setCell\<close> do.\<close>

definition getCol :: "cell list \<Rightarrow> nat \<Rightarrow> cell" where
  "getCol col y = (if y < length col then col ! y else None)"

definition setCol :: "cell list \<Rightarrow> nat \<Rightarrow> cell \<Rightarrow> cell list" where
  "setCol col y v = (col @ replicate (Suc y - length col) None)[y := v]"

text \<open>What a step of the falling loop keeps.\<close>

definition sameFrame :: "grid \<Rightarrow> grid \<Rightarrow> bool" where
  "sameFrame s s' =
     (width s' = width s \<and> height s' = height s \<and> length (gems s') = length (gems s)
      \<and> length (heap s') = length (heap s) \<and> tokens (gems s') = tokens (gems s))"

text \<open>A cell that holds a gem; a board with a gem in every cell.\<close>

definition filled :: "grid \<Rightarrow> nat \<Rightarrow> nat \<Rightarrow> bool" where
  "filled s x y = (\<exists>g. getCell (gems s) x y = Inr (Some g))"

definition full :: "grid \<Rightarrow> bool" where
  "full s = (\<forall>x < width s. \<forall>y < height s. filled s x y)"

text \<open>What a step of the refill keeps: the dimensions and every gem already in a cell.\<close>

definition keepsCells :: "grid \<Rightarrow> grid \<Rightarrow> bool" where
  "keepsCells s s' =
     (width s' = width s \<and> height s' = height s
      \<and> (\<forall>x y. filled s x y \<longrightarrow> filled s' x y))"

text \<open>
  A run as the scan pushes it: three gems or more, none of them \<^verbatim>\<open>null\<close>. The invariant of
  the scanning loop: the sequence is the lone \<^verbatim>\<open>null\<close> of a reset, or it holds no \<^verbatim>\<open>null\<close>.
\<close>

definition goodRun :: "match \<Rightarrow> bool" where
  "goodRun m = (length (mgems m) \<ge> 3 \<and> None \<notin> set (mgems m))"

definition scanInv :: "cell list \<times> gem_type option \<times> match list \<Rightarrow> bool" where
  "scanInv st =
     (case st of (matchingGems, currentType, matches) \<Rightarrow>
        (matchingGems = [None] \<and> currentType = None \<or> None \<notin> set matchingGems)
        \<and> list_all goodRun matches)"

text \<open>Two stores whose gems have the same types.\<close>

definition sameTypes :: "gem list \<Rightarrow> gem list \<Rightarrow> bool" where
  "sameTypes h h' = (\<forall>g. gemType (h ! g) = gemType (h' ! g))"

text \<open>A scene whose swap sound returns: no audio manager, or one that has the method.\<close>

definition swapSoundPlays :: "scene \<Rightarrow> bool" where
  "swapSoundPlays sc =
     (case audioManager sc of None \<Rightarrow> True | Some manager \<Rightarrow> ''playGemSwap'' \<in> set manager)"

text \<open>A board of one cell.\<close>

definition singleCell :: "grid \<Rightarrow> bool" where
  "singleCell s = (width s = 1 \<and> height s = 1 \<and> length (concat (gems s)) \<le> 1)"

section \<open>Example boards\<close>

text \<open>A 2 x 2 board of four different gems, each stored at its own coordinates.\<close>

definition board22 :: grid where
  "board22 =
     \<lparr>width = 2, height = 2,
      gems = [[Some 0, Some 1], [Some 2, Some 3]],
      heap = [\<lparr>gemType = BLUE, gridX = 0, gridY = 0\<rparr>,
              \<lparr>gemType = GREEN, gridX = 0, gridY = 1\<rparr>,
              \<lparr>gemType = RED, gridX = 1, gridY = 0\<rparr>,
              \<lparr>gemType = YELLOW, gridX = 1, gridY = 1\<rparr>],
      selectedGem = None, canInput = True, drawn = 0\<rparr>"

definition fourGems :: match where
  "fourGems = \<lparr>mgems = [Some 0, Some 1, Some 2, Some 3], mtype = horizontal\<rparr>"

text \<open>
  The same board after the probe \<^verbatim>\<open>wouldCreateMatch(gems[0][0], gems[0][1])\<close>, the first one
  of \<^verbatim>\<open>hasValidMoves\<close>: the green gem of cell (0,1) carries the coordinates (0,0).
\<close>

definition probedBoard :: grid where
  "probedBoard = board22\<lparr>heap := (heap board22)[1 := \<lparr>gemType = GREEN, gridX = 0, gridY = 0\<rparr>]\<rparr>"

text \<open>
  A 3 x 3 board with a plus of five red gems: row 1 and column 1 are red, the corners are
  not. Gem \<open>3 * x + y\<close> is stored at \<open>(x, y)\<close>.
\<close>

definition plusBoard :: grid where
  "plusBoard =
     \<lparr>width = 3, height = 3,
      gems = [[Some 0, Some 1, Some 2], [Some 3, Some 4, Some 5], [Some 6, Some 7, Some 8]],
      heap = [\<lparr>gemType = BLUE, gridX = 0, gridY = 0\<rparr>,
              \<lparr>gemType = RED, gridX = 0, gridY = 1\<rparr>,
              \<lparr>gemType = GREEN, gridX = 0, gridY = 2\<rparr>,
              \<lparr>gemType = RED, gridX = 1, gridY = 0\<rparr>,
              \<lparr>gemType = RED, gridX = 1, gridY = 1\<rparr>,
              \<lparr>gemType = RED, gridX = 1, gridY = 2\<rparr>,
              \<lparr>gemType = GREEN, gridX = 2, gridY = 0\<rparr>,
              \<lparr>gemType = RED, gridX = 2, gridY = 1\<rparr>,
              \<lparr>gemType = BLUE, gridX = 2, gridY = 2\<rparr>],
      selectedGem = None, canInput = True, drawn = 0\<rparr>"

text \<open>
  A 4 x 3 board (gem \<open>3 * x + y\<close> at \<open>(x, y)\<close>): row 0 starts with three red gems and
  column 0 is red, an L of five red gems; row 1 ends with three blue gems, which lie
  directly below the red row.
  \<^verbatim>\<open>
      R R R G
      R B B B
      R G Y G
  \<close>
\<close>

definition mixedBoard :: grid where
  "mixedBoard =
     \<lparr>width = 4, height = 3,
      gems = [[Some 0, Some 1, Some 2], [Some 3, Some 4, Some 5],
              [Some 6, Some 7, Some 8], [Some 9, Some 10, Some 11]],
      heap = [\<lparr>gemType = RED, gridX = 0, gridY = 0\<rparr>,
              \<lparr>gemType = RED, gridX = 0, gridY = 1\<rparr>,
              \<lparr>gemType = RED, gridX = 0, gridY = 2\<rparr>,
              \<lparr>gemType = RED, gridX = 1, gridY = 0\<rparr>,
              \<lparr>gemType = BLUE, gridX = 1, gridY = 1\<rparr>,
              \<lparr>gemType = GREEN, gridX = 1, gridY = 2\<rparr>,
              \<lparr>gemType = RED, gridX = 2, gridY = 0\<rparr>,
              \<lparr>gemType = BLUE, gridX = 2, gridY = 1\<rparr>,
              \<lparr>gemType = YELLOW, gridX = 2, gridY = 2\<rparr>,
              \<lparr>gemType = GREEN, gridX = 3, gridY = 0\<rparr>,
              \<lparr>gemType = BLUE, gridX = 3, gridY = 1\<rparr>,
              \<lparr>gemType = GREEN, gridX = 3, gridY = 2\<rparr>],
      selectedGem = None, canInput = True, drawn = 0\<rparr>"

text \<open>
  A 2 x 4 board (gem \<open>4 * x + y\<close> at \<open>(x, y)\<close>) without matches; gem 0 is selected.
  Exchanging gems 0 and 1, the two top cells of column 0, makes no match.
\<close>

definition swapBoard :: grid where
  "swapBoard =
     \<lparr>width = 2, height = 4,
      gems = [[Some 0, Some 1, Some 2, Some 3], [Some 4, Some 5, Some 6, Some 7]],
      heap = [\<lparr>gemType = RED, gridX = 0, gridY = 0\<rparr>,
              \<lparr>gemType = BLUE, gridX = 0, gridY = 1\<rparr>,
              \<lparr>gemType = BLUE, gridX = 0, gridY = 2\<rparr>,
              \<lparr>gemType = GREEN, gridX = 0, gridY = 3\<rparr>,
              \<lparr>gemType = BLUE, gridX = 1, gridY = 0\<rparr>,
              \<lparr>gemType = GREEN, gridX = 1, gridY = 1\<rparr>,
              \<lparr>gemType = YELLOW, gridX = 1, gridY = 2\<rparr>,
              \<lparr>gemType = BLUE, gridX = 1, gridY = 3\<rparr>],
      selectedGem = Some 0, canInput = True, drawn = 0\<rparr>"

definition swappedBoard :: grid where
  "swappedBoard =
     swapBoard\<lparr>gems := [[Some 1, Some 0, Some 2, Some 3], [Some 4, Some 5, Some 6, Some 7]],
               heap := (heap swapBoard)
                 [0 := \<lparr>gemType = RED, gridX = 0, gridY = 1\<rparr>,
                  1 := \<lparr>gemType = BLUE, gridX = 0, gridY = 0\<rparr>],
               canInput := False\<rparr>"

text \<open>
  A 2 x 4 board whose column 0 holds a blue gem above three red ones, and the oracle
  that makes the refill after their removal green, blue, blue: with the blue gem that
  fell, a second match. The second refill is red, purple, white.
\<close>

definition cascadeBoard :: grid where
  "cascadeBoard =
     \<lparr>width = 2, height = 4,
      gems = [[Some 0, Some 1, Some 2, Some 3], [Some 4, Some 5, Some 6, Some 7]],
      heap = [\<lparr>gemType = BLUE, gridX = 0, gridY = 0\<rparr>,
              \<lparr>gemType = RED, gridX = 0, gridY = 1\<rparr>,
              \<lparr>gemType = RED, gridX = 0, gridY = 2\<rparr>,
              \<lparr>gemType = RED, gridX = 0, gridY = 3\<rparr>,
              \<lparr>gemType = YELLOW, gridX = 1, gridY = 0\<rparr>,
              \<lparr>gemType = GREEN, gridX = 1, gridY = 1\<rparr>,
              \<lparr>gemType = YELLOW, gridX = 1, gridY = 2\<rparr>,
              \<lparr>gemType = GREEN, gridX = 1, gridY = 3\<rparr>],
      selectedGem = None, canInput = False, drawn = 0\<rparr>"

definition redRun :: "match list" where
  "redRun = [\<lparr>mgems = [Some 1, Some 2, Some 3], mtype = vertical\<rparr>]"

definition draws :: "nat \<Rightarrow> nat" where
  "draws k = [1, 0, 0, 2, 4, 5] ! (k mod 6)"

text \<open>The board after the removal of the red run, after the gravity pass and after the refill.\<close>

definition removedBoard :: grid where
  "removedBoard =
     cascadeBoard\<lparr>gems := [[Some 0, None, None, None], [Some 4, Some 5, Some 6, Some 7]]\<rparr>"

definition fallenBoard :: grid where
  "fallenBoard =
     removedBoard\<lparr>gems := [[None, None, None, Some 0], [Some 4, Some 5, Some 6, Some 7]],
                  heap := (heap cascadeBoard)[0 := \<lparr>gemType = BLUE, gridX = 0, gridY = 3\<rparr>]\<rparr>"

definition refilledBoard :: grid where
  "refilledBoard =
     fallenBoard\<lparr>gems := [[Some 8, Some 9, Some 10, Some 0], [Some 4, Some 5, Some 6, Some 7]],
                 heap := heap fallenBoard @
                   [\<lparr>gemType = GREEN, gridX = 0, gridY = 0\<rparr>,
                    \<lparr>gemType = BLUE, gridX = 0, gridY = 1\<rparr>,
                    \<lparr>gemType = BLUE, gridX = 0, gridY = 2\<rparr>],
                 drawn := 3\<rparr>"

text \<open>The board the cascade ends with.\<close>

definition settledBoard :: grid where
  "settledBoard =
     refilledBoard\<lparr>gems := [[Some 11, Some 12, Some 13, Some 8], [Some 4, Some 5, Some 6, Some 7]],
                   heap := (heap refilledBoard)[8 := \<lparr>gemType = GREEN, gridX = 0, gridY = 3\<rparr>] @
                     [\<lparr>gemType = RED, gridX = 0, gridY = 0\<rparr>,
                      \<lparr>gemType = PURPLE, gridX = 0, gridY = 1\<rparr>,
                      \<lparr>gemType = WHITE, gridX = 0, gridY = 2\<rparr>],
                   drawn := 6\<rparr>"

text \<open>Boards of a single cell, and an oracle.\<close>

definition oneCell :: grid where
  "oneCell =
     \<lparr>width = 1, height = 1, gems = [[Some 0]],
      heap = [\<lparr>gemType = BLUE, gridX = 0, gridY = 0\<rparr>],
      selectedGem = None, canInput = True, drawn = 0\<rparr>"

definition oneRedCell :: grid where
  "oneRedCell =
     \<lparr>width = 1, height = 1, gems = [[Some 0]],
      heap = [\<lparr>gemType = RED, gridX = 0, gridY = 0\<rparr>],
      selectedGem = None, canInput = True, drawn = 7\<rparr>"

definition countUp :: "nat \<Rightarrow> nat" where
  "countUp k = k"

section \<open>Scoring: base points and combo multiplier\<close>

text \<open>
  C4, as stated: every match's base score follows the table 3 \<rightarrow> 100, 4 \<rightarrow> 300, 5 \<rightarrow> 1000,
  6 or more \<rightarrow> 3000. \<^verbatim>\<open>Game.calculateBasePoints\<close>, the function the grid's score update
  reaches, gives a match of four gems 200 points, not 300.
\<close>

theorem C4_four_gems_score_200: "calculateBasePoints fourGems = 200"
  by (simp add: calculateBasePoints_def fourGems_def)

text \<open>
  C4, amended: \<^verbatim>\<open>Game.calculateBasePoints\<close> gives a match of more than three gems 100 points
  doubled once for each gem beyond the third (200 for four gems, 400 for five, 800 for six,
  and so on without a bound), and 100 points to every other match.
\<close>

theorem C4_base_points_double:
  "calculateBasePoints m =
     (if length (mgems m) > 3 then 100 * 2 ^ (length (mgems m) - 3) else 100)"
proof (cases "length (mgems m) > 3")
  case True
  then have "nat (int (length (mgems m)) - 3) = length (mgems m) - 3" by simp
  with True show ?thesis by (simp add: calculateBasePoints_def Let_def)
next
  case False
  then show ?thesis by (simp add: calculateBasePoints_def Let_def)
qed



section \<open>The cell accessor\<close>

text \<open>
  C9, as stated: outside the grid \<^verbatim>\<open>getGemAt\<close> fails with an error. At \<open>(-1, 0)\<close> on the
  2 x 2 board it returns \<^verbatim>\<open>null\<close>.
\<close>

theorem C9_getGemAt_left_of_board: "getGemAt board22 (- 1) 0 = Inr None"
  by (simp add: getGemAt_def isValidGridPosition_def)

text \<open>
  C9, amended: for every coordinate pair outside the grid \<^verbatim>\<open>getGemAt\<close> returns \<^verbatim>\<open>null\<close>,
  and raises nothing.
\<close>

theorem C9_getGemAt_outside:
  "\<not> isValidGridPosition s (x, y) \<Longrightarrow> getGemAt s x y = Inr None"
  by (simp add: getGemAt_def)

theorem C9_getGemAt_outside_witness:
  "\<not> isValidGridPosition board22 (2, 5) \<and> getGemAt board22 2 5 = Inr None"
proof -
  have h: "\<not> isValidGridPosition board22 (2, 5)"
    by (simp add: isValidGridPosition_def board22_def)
  from h C9_getGemAt_outside [OF h] show ?thesis by simp
qed

section \<open>Runs and matches hold no empty cell\<close>

text \<open>A loop keeps an invariant that each run of its body keeps.\<close>

lemma forEach_inv:
  assumes step: "\<And>i st st'. P st \<Longrightarrow> body i st = Inr st' \<Longrightarrow> P st'"
  shows "P st \<Longrightarrow> forEach is body st = Inr st' \<Longrightarrow> P st'"
proof (induction "is" arbitrary: st)
  case Nil
  then show ?case by simp
next
  case (Cons i "is")
  from Cons.prems(2) obtain st1 where a: "body i st = Inr st1" and b: "forEach is body st1 = Inr st'"
    by (auto split: sum.splits)
  from Cons.IH [OF step [OF Cons.prems(1) a] b] show ?case .
qed

lemma pushRun_good:
  "list_all goodRun ms \<Longrightarrow> None \<notin> set run \<or> length run < 3 \<Longrightarrow> list_all goodRun (pushRun ty run ms)"
  by (auto simp: pushRun_def goodRun_def)

lemma scanStep_inv: "scanInv st \<Longrightarrow> scanInv (scanStep s ty gem st)"
  by (cases st) (auto simp: scanInv_def scanStep_def typeOf_def intro!: pushRun_good)

lemma scanLine_good:
  assumes "list_all goodRun ms" and "scanLine s ty cellAt n ms = Inr ms'"
  shows "list_all goodRun ms'"
proof -
  from assms(2) obtain run cur ms1 where
    loop: "forEach [0..<n]
             (\<lambda>i st. case cellAt i of Inl e \<Rightarrow> Inl e | Inr gem \<Rightarrow> Inr (scanStep s ty gem st))
             ([], None, ms) = Inr (run, cur, ms1)"
    and ms': "ms' = pushRun ty run ms1"
    by (auto simp: scanLine_def split: sum.splits)
  have "scanInv ([], None, ms)" using assms(1) by (simp add: scanInv_def)
  then have "scanInv (run, cur, ms1)"
    by (rule forEach_inv [rotated, OF _ loop]) (auto split: sum.splits, metis scanStep_inv)
  then show ?thesis unfolding ms' by (auto simp: scanInv_def intro!: pushRun_good)
qed

text \<open>
  Every run the scan of \<^verbatim>\<open>findMatches\<close> finds has three gems or more and no \<^verbatim>\<open>null\<close>: the
  \<^verbatim>\<open>null\<close> that a reset puts into \<^verbatim>\<open>matchingGems\<close> never gets a successor.
\<close>

lemma findRuns_good:
  assumes "findRuns s = Inr ms"
  shows "list_all goodRun ms"
proof -
  from assms obtain hs where
    h: "forEach [0..<height s]
          (\<lambda>y. scanLine s horizontal (\<lambda>x. getCell (gems s) x y) (width s)) [] = Inr hs"
    and v: "forEach [0..<width s]
          (\<lambda>x. scanLine s vertical (\<lambda>y. getCell (gems s) x y) (height s)) hs = Inr ms"
    by (auto simp: findRuns_def split: sum.splits)
  have "list_all goodRun hs"
    by (rule forEach_inv [rotated, OF _ h]) (auto intro: scanLine_good)
  then show ?thesis
    by (rule forEach_inv [rotated, OF _ v]) (auto intro: scanLine_good)
qed

lemma someProcessed_False: "someProcessed s processed gs = Inr False \<Longrightarrow> None \<notin> set gs"
  by (induction s processed gs rule: someProcessed.induct) (auto split: if_splits)

lemma consolidateStep_no_null:
  assumes "list_all (\<lambda>m. None \<notin> set (mgems m)) (fst st)"
    and "consolidateStep s matchMap m st = Inr st'"
  shows "list_all (\<lambda>m. None \<notin> set (mgems m)) (fst st')"
  using assms
  by (cases st)
     (auto simp: consolidateStep_def split: sum.splits bool.splits if_splits
        dest: someProcessed_False)

text \<open>No match that \<^verbatim>\<open>findMatches\<close> returns holds an empty cell.\<close>

lemma findMatches_no_null:
  assumes "findMatches s = Inr ms"
  shows "list_all (\<lambda>m. None \<notin> set (mgems m)) ms"
proof -
  from assms obtain runs matchMap processed where
    loop: "forEach runs (consolidateStep s matchMap) ([], {}) = Inr (ms, processed)"
    by (auto simp: findMatches_def consolidateMatches_def split: sum.splits)
  have "list_all (\<lambda>m. None \<notin> set (mgems m)) (fst (ms, processed))"
    by (rule forEach_inv [rotated, OF _ loop]) (auto intro: consolidateStep_no_null)
  then show ?thesis by simp
qed

section \<open>Match detection on concrete boards\<close>

lemma identifyPattern_never_cross: "identifyPattern s gs \<noteq> cross"
  by (simp add: identifyPattern_def Let_def)

text \<open>
  C6: a plus-shaped match of five cells in a 3 x 3 box should be classified as a cross.
  On the board with a red plus, \<^verbatim>\<open>findMatches\<close> returns the five gems as one match of type
  \<^verbatim>\<open>'L_shape'\<close>; and \<^verbatim>\<open>identifyPattern\<close> returns \<^verbatim>\<open>'cross'\<close> for no set of gems at all, since
  the branch that would return it repeats the test of the first branch.
\<close>

theorem C6_plus_classified_L_shape:
  "findMatches plusBoard =
     Inr [\<lparr>mgems = [Some 4, Some 3, Some 7, Some 5, Some 1], mtype = L_shape\<rparr>]
   \<and> identifyPattern s gs \<noteq> cross"
proof -
  have "findMatches plusBoard =
     Inr [\<lparr>mgems = [Some 4, Some 3, Some 7, Some 5, Some 1], mtype = L_shape\<rparr>]"
    by code_simp
  then show ?thesis by (simp add: identifyPattern_never_cross)
qed

text \<open>
  C10: all gems of one match returned by \<^verbatim>\<open>findMatches\<close> should have one type. On the
  board with a red L and a blue run below its arm, the search from the L's corner walks
  into the blue run, because it follows every neighbour that is in the match map whatever
  its type: the single match returned holds the five red and the three blue gems.
\<close>

theorem C10_match_mixes_types:
  "findMatches mixedBoard =
     Inr [\<lparr>mgems = [Some 0, Some 3, Some 6, Some 7, Some 10, Some 4, Some 1, Some 2],
           mtype = special\<rparr>]
   \<and> typeOf mixedBoard (Some 0) = Some RED
   \<and> typeOf mixedBoard (Some 7) = Some BLUE"
  by code_simp

section \<open>The deadlock check and the coordinates of the gems\<close>

text \<open>
  After any probe of two gems of the store, the grid array is as before and the second
  gem carries the coordinates the first gem had before the probe.
\<close>

lemma wouldCreateMatch_second_gem:
  assumes "wouldCreateMatch s (Some g1) (Some g2) = Inr (found, s')"
    and "g1 < length (heap s)" and "g2 < length (heap s)"
  shows "gems s' = gems s
         \<and> gridX (heap s' ! g2) = gridX (heap s ! g1)
         \<and> gridY (heap s' ! g2) = gridY (heap s ! g1)"
  using assms
  by (auto simp: Let_def setGridPos_def nth_list_update split: sum.splits)

text \<open>
  C3: \<^verbatim>\<open>hasValidMoves\<close> should leave every gem with the coordinates it had. On the 2 x 2
  board it leaves the grid array as it was, but every gem ends with the coordinates
  \<open>(0, 0)\<close>: the "swap back" of \<^verbatim>\<open>wouldCreateMatch\<close> restores the first gem and then copies
  the first gem's coordinates to the second.
\<close>

theorem C3_hasValidMoves_moves_coordinates:
  "hasValidMoves board22 =
     Inr (False,
          board22\<lparr>heap := [\<lparr>gemType = BLUE, gridX = 0, gridY = 0\<rparr>,
                            \<lparr>gemType = GREEN, gridX = 0, gridY = 0\<rparr>,
                            \<lparr>gemType = RED, gridX = 0, gridY = 0\<rparr>,
                            \<lparr>gemType = YELLOW, gridX = 0, gridY = 0\<rparr>]\<rparr>)"
  by code_simp

section \<open>Reading and writing cells\<close>

lemma getCell_SomeD:
  "getCell gs x y = Inr (Some g) \<Longrightarrow> x < length gs \<and> y < length (gs ! x) \<and> gs ! x ! y = Some g"
  by (auto simp: getCell_def split: if_splits)

lemma setCell_inrange:
  "x < length gs \<Longrightarrow> y < length (gs ! x) \<Longrightarrow> setCell gs x y v = Inr (gs[x := (gs ! x)[y := v]])"
  by (simp add: setCell_def)

lemma getCell_getCol:
  "getCell gs x y = (if x < length gs then Inr (getCol (gs ! x) y) else Inl TypeError)"
  by (simp add: getCell_def getCol_def)

lemma setCell_setCol:
  "setCell gs x y v = (if x < length gs then Inr (gs[x := setCol (gs ! x) y v]) else Inl TypeError)"
  by (simp add: setCell_def setCol_def)

lemma getCol_setCol: "getCol (setCol col y v) y' = (if y' = y then v else getCol col y')"
  by (auto simp: getCol_def setCol_def nth_list_update nth_append)

lemma getCell_setCell:
  "setCell gs x y v = Inr gs' \<Longrightarrow>
   getCell gs' x' y' = (if x' = x \<and> y' = y then Inr v else getCell gs x' y')"
  by (auto simp: setCell_setCol getCell_getCol getCol_setCol nth_list_update split: if_splits)

lemma setCell_length: "setCell gs x y v = Inr gs' \<Longrightarrow> length gs' = length gs"
  by (auto simp: setCell_def split: if_splits)

lemma setCell_total: "x < length gs \<Longrightarrow> \<exists>gs'. setCell gs x y v = Inr gs'"
  by (simp add: setCell_def)

text \<open>Writing two cells and then writing their old contents back.\<close>

lemma write_back:
  fixes gs :: "'a list list" and v w :: 'a
  assumes x1: "x1 < length gs" and y1: "y1 < length (gs ! x1)"
      and x2: "x2 < length gs" and y2: "y2 < length (gs ! x2)"
      and ne: "(x1, y1) \<noteq> (x2, y2)"
  defines "a \<equiv> gs[x2 := (gs ! x2)[y2 := v]]"
  defines "b \<equiv> a[x1 := (a ! x1)[y1 := w]]"
  defines "c \<equiv> b[x2 := (b ! x2)[y2 := gs ! x2 ! y2]]"
  defines "d \<equiv> c[x1 := (c ! x1)[y1 := gs ! x1 ! y1]]"
  shows "d = gs"
proof (rule nth_equalityI)
  show "length d = length gs" by (simp add: a_def b_def c_def d_def)
next
  fix i assume "i < length d"
  then have i: "i < length gs" by (simp add: a_def b_def c_def d_def)
  show "d ! i = gs ! i"
  proof (rule nth_equalityI)
    show "length (d ! i) = length (gs ! i)"
      using i x1 x2 by (simp add: a_def b_def c_def d_def nth_list_update)
  next
    fix j assume "j < length (d ! i)"
    then show "d ! i ! j = gs ! i ! j"
      using i x1 x2 y1 y2 ne
      by (auto simp: a_def b_def c_def d_def nth_list_update split: if_splits)
  qed
qed

section \<open>A swap that makes no match\<close>

lemma swap_then_swap_back:
  assumes g1: "g1 < length (heap s)" and g2: "g2 < length (heap s)" and ne: "g1 \<noteq> g2"
    and at1: "getCell (gems s) (gridX (heap s ! g1)) (gridY (heap s ! g1)) = Inr (Some g1)"
    and at2: "getCell (gems s) (gridX (heap s ! g2)) (gridY (heap s ! g2)) = Inr (Some g2)"
  shows "\<exists>s1. exchangeGems s g1 g2 = Inr s1 \<and> exchangeGems s1 g2 g1 = Inr s"
proof -
  define x1 where "x1 = gridX (heap s ! g1)"
  define y1 where "y1 = gridY (heap s ! g1)"
  define x2 where "x2 = gridX (heap s ! g2)"
  define y2 where "y2 = gridY (heap s ! g2)"
  note xy = x1_def y1_def x2_def y2_def
  define gs where "gs = gems s"
  have r1: "x1 < length gs" "y1 < length (gs ! x1)" "gs ! x1 ! y1 = Some g1"
    using getCell_SomeD [OF at1] by (simp_all add: xy gs_def)
  have r2: "x2 < length gs" "y2 < length (gs ! x2)" "gs ! x2 ! y2 = Some g2"
    using getCell_SomeD [OF at2] by (simp_all add: xy gs_def)
  have cne: "(x1, y1) \<noteq> (x2, y2)" using r1(3) r2(3) ne by auto
  define h2 where "h2 = setGridPos (setGridPos (heap s) g1 x2 y2) g2 x1 y1"
  have h2g1: "gridX (h2 ! g1) = x2" "gridY (h2 ! g1) = y2"
    and h2g2: "gridX (h2 ! g2) = x1" "gridY (h2 ! g2) = y1"
    using g1 g2 ne by (simp_all add: h2_def setGridPos_def)
  have lh2: "length h2 = length (heap s)" by (simp add: h2_def setGridPos_def)
  define a where "a = gs[x2 := (gs ! x2)[y2 := Some g1]]"
  define b where "b = a[x1 := (a ! x1)[y1 := Some g2]]"
  define c where "c = b[x2 := (b ! x2)[y2 := gs ! x2 ! y2]]"
  define d where "d = c[x1 := (c ! x1)[y1 := gs ! x1 ! y1]]"
  have la: "x1 < length a" "y1 < length (a ! x1)"
    using r1 r2 by (simp_all add: a_def nth_list_update)
  have lb: "x2 < length b" "y2 < length (b ! x2)"
    using r1 r2 by (simp_all add: a_def b_def nth_list_update)
  have lc: "x1 < length c" "y1 < length (c ! x1)"
    using r1 r2 by (simp_all add: a_def b_def c_def nth_list_update)
  have dgs: "d = gs"
    unfolding d_def c_def b_def a_def by (rule write_back [OF r1(1,2) r2(1,2) cne])
  define s1 where "s1 = s\<lparr>gems := b, heap := h2\<rparr>"
  have first: "exchangeGems s g1 g2 = Inr s1"
    using r1 r2 la
    by (simp add: exchangeGems_def Let_def h2_def [symmetric] xy [symmetric] h2g1 h2g2
        gs_def [symmetric] setCell_inrange a_def [symmetric] b_def [symmetric] s1_def)
  have back_heap: "setGridPos (setGridPos h2 g2 x2 y2) g1 x1 y1 = heap s"
  proof (rule nth_equalityI)
    show "length (setGridPos (setGridPos h2 g2 x2 y2) g1 x1 y1) = length (heap s)"
      by (simp add: setGridPos_def lh2)
  next
    fix i assume "i < length (setGridPos (setGridPos h2 g2 x2 y2) g1 x1 y1)"
    then have "i < length (heap s)" by (simp add: setGridPos_def lh2)
    then show "setGridPos (setGridPos h2 g2 x2 y2) g1 x1 y1 ! i = heap s ! i"
      using g1 g2 ne by (simp add: setGridPos_def h2_def nth_list_update xy)
  qed
  have w1: "setCell b x2 y2 (Some g2) = Inr c"
    using lb r2(3) by (simp add: setCell_inrange c_def)
  have w2: "setCell c x1 y1 (Some g1) = Inr (gems s)"
    using lc r1(3) dgs by (simp add: setCell_inrange d_def gs_def)
  have second: "exchangeGems s1 g2 g1 = Inr s"
    by (simp add: exchangeGems_def Let_def s1_def h2g1 h2g2 back_heap xy [symmetric] w1 w2)
  from first second show ?thesis by blast
qed

lemma adjacent_distinct: "areGemsAdjacent s g1 g2 \<Longrightarrow> g1 \<noteq> g2"
  by (auto simp: areGemsAdjacent_def Let_def)

lemma deselect_then_enable:
  "(deselectGem (s\<lparr>canInput := False\<rparr>))\<lparr>canInput := True\<rparr> = s\<lparr>selectedGem := None, canInput := True\<rparr>"
  by (simp add: deselectGem_def)

lemma swapGems_plays: "swapSoundPlays sc \<Longrightarrow> swapGems sc s g1 g2 = exchangeGems s g1 g2"
  by (auto simp: swapGems_def swapSoundPlays_def callMethod_def split: sum.splits option.splits)

text \<open>
  What the grid's own code does, given a scene whose swap sound returns: for two adjacent
  gems, each in the cell its coordinates name, whose exchange leaves \<^verbatim>\<open>findMatches\<close> empty,
  \<^verbatim>\<open>trySwapGems\<close> returns with the grid array and every gem's coordinates as they were
  before the call; only the selection (cleared) and the input flag (set) can differ.
\<close>

lemma failed_swap_restores_cells:
  assumes sc: "swapSoundPlays sc"
    and g1: "g1 < length (heap s)" and g2: "g2 < length (heap s)"
    and adj: "areGemsAdjacent s g1 g2"
    and at1: "getCell (gems s) (gridX (heap s ! g1)) (gridY (heap s ! g1)) = Inr (Some g1)"
    and at2: "getCell (gems s) (gridX (heap s ! g2)) (gridY (heap s ! g2)) = Inr (Some g2)"
    and swapped: "exchangeGems (s\<lparr>canInput := False\<rparr>) g1 g2 = Inr s1"
    and nomatch: "findMatches s1 = Inr []"
  shows "trySwapGems sc rnd s g1 g2 = Some (Inr (s\<lparr>selectedGem := None, canInput := True\<rparr>))"
proof -
  have "\<exists>t. exchangeGems (s\<lparr>canInput := False\<rparr>) g1 g2 = Inr t
           \<and> exchangeGems t g2 g1 = Inr (s\<lparr>canInput := False\<rparr>)"
    using g1 g2 at1 at2 adjacent_distinct [OF adj] by (intro swap_then_swap_back) simp_all
  with swapped have restored: "exchangeGems s1 g2 g1 = Inr (s\<lparr>canInput := False\<rparr>)" by auto
  show ?thesis
    by (simp add: trySwapGems_def swapGems_plays [OF sc] swapped nomatch restored
        deselect_then_enable)
qed

lemma failed_swap_without_sound:
  "trySwapGems bareScene countUp swapBoard 0 1
     = Some (Inr (swapBoard\<lparr>selectedGem := None, canInput := True\<rparr>))"
proof -
  have sc: "swapSoundPlays bareScene" by (simp add: swapSoundPlays_def bareScene_def)
  have g: "0 < length (heap swapBoard)" "1 < length (heap swapBoard)"
    by (simp_all add: swapBoard_def)
  have adj: "areGemsAdjacent swapBoard 0 1" by code_simp
  have at1: "getCell (gems swapBoard) (gridX (heap swapBoard ! 0)) (gridY (heap swapBoard ! 0))
               = Inr (Some 0)" by code_simp
  have at2: "getCell (gems swapBoard) (gridX (heap swapBoard ! 1)) (gridY (heap swapBoard ! 1))
               = Inr (Some 1)" by code_simp
  have sw: "exchangeGems (swapBoard\<lparr>canInput := False\<rparr>) 0 1 = Inr swappedBoard" by code_simp
  have nm: "findMatches swappedBoard = Inr []" by code_simp
  show ?thesis by (rule failed_swap_restores_cells [OF sc g adj at1 at2 sw nm])
qed

text \<open>
  Without the hypothesis that each gem is in the cell its coordinates name, the swap back
  does not restore the cells. After the first probe of \<^verbatim>\<open>hasValidMoves\<close> on the 2 x 2 board
  the gem of cell (0,1) carries the coordinates (0,0); exchanging it with the gem of cell
  (1,0), which makes no match, and exchanging back writes it to cell (0,0): the gem that
  was there is gone from the board, and one gem is in two cells.
\<close>

lemma failed_swap_after_probe:
  "wouldCreateMatch board22 (Some 0) (Some 1) = Inr (False, probedBoard)
   \<and> areGemsAdjacent probedBoard 1 2
   \<and> trySwapGems bareScene countUp probedBoard 1 2
       = Some (Inr (probedBoard\<lparr>gems := [[Some 1, Some 1], [Some 2, Some 3]]\<rparr>))"
  by code_simp

lemma playGemSwap_undefined: "callMethod AudioManager ''playGemSwap'' = Inl TypeError"
  by (simp add: callMethod_def AudioManager_def)

text \<open>
  C2, as stated: for every pair of adjacent gems whose swap makes no match, \<^verbatim>\<open>trySwapGems\<close>
  restores the board to its contents before the swap, and then returns. With the scene of
  the repository it does not: on the 2 x 4 board, for the two top gems of column 0 (whose
  exchange makes no match), the first \<^verbatim>\<open>swapGems\<close> exchanges the two gems and then raises,
  because class \<^verbatim>\<open>AudioManager\<close> has no method \<^verbatim>\<open>playGemSwap\<close>. \<^verbatim>\<open>trySwapGems\<close> ends with that
  exception: the swap back and \<^verbatim>\<open>this.canInput = true\<close> are never run, and the grid stays
  as the exchange left it.
\<close>

theorem C2_failed_swap_raises:
  "exchangeGems (swapBoard\<lparr>canInput := False\<rparr>) 0 1 = Inr swappedBoard
   \<and> findMatches swappedBoard = Inr []
   \<and> swapGems (Game 0) (swapBoard\<lparr>canInput := False\<rparr>) 0 1 = Inl TypeError
   \<and> trySwapGems (Game 0) countUp swapBoard 0 1 = Some (Inl TypeError)"
proof -
  have sw: "exchangeGems (swapBoard\<lparr>canInput := False\<rparr>) 0 1 = Inr swappedBoard" by code_simp
  have nm: "findMatches swappedBoard = Inr []" by code_simp
  have raise: "swapGems (Game 0) (swapBoard\<lparr>canInput := False\<rparr>) 0 1 = Inl TypeError"
    unfolding swapGems_def sw by (simp add: Game_def playGemSwap_undefined)
  have "trySwapGems (Game 0) countUp swapBoard 0 1 = Some (Inl TypeError)"
    unfolding trySwapGems_def raise by simp
  with sw nm raise show ?thesis by simp
qed

section \<open>Tokens across removal, gravity and refill\<close>

lemma colTokens_append: "colTokens (xs @ ys) = colTokens xs + colTokens ys"
  by (simp add: colTokens_def)

lemma colTokens_replicate: "colTokens (replicate n None) = {#}"
  by (induction n) (simp_all add: colTokens_def)

lemma colTokens_Cons: "colTokens (c # cs) = optTok c + colTokens cs"
  by (cases c) (simp_all add: colTokens_def optTok_def)

lemma colTokens_update:
  "y < length col \<Longrightarrow> colTokens (col[y := v]) + optTok (col ! y) = colTokens col + optTok v"
proof -
  assume y: "y < length col"
  have "colTokens (col[y := v]) = colTokens (take y col) + optTok v + colTokens (drop (Suc y) col)"
    using y by (simp add: upd_conv_take_nth_drop colTokens_append colTokens_Cons)
  moreover have "colTokens col = colTokens (take y col) + optTok (col ! y) + colTokens (drop (Suc y) col)"
    using y by (metis id_take_nth_drop colTokens_append colTokens_Cons add.assoc)
  ultimately show ?thesis by simp
qed

lemma colTokens_setCol:
  "colTokens (setCol col y v) + optTok (getCol col y) = colTokens col + optTok v"
proof (cases "y < length col")
  case True
  then show ?thesis by (simp add: setCol_def getCol_def colTokens_update)
next
  case False
  define padded where "padded = col @ replicate (Suc y - length col) None"
  have len: "y < length padded" using False by (simp add: padded_def)
  have old: "padded ! y = None" using False by (simp add: padded_def nth_append)
  have "colTokens (padded[y := v]) + optTok (padded ! y) = colTokens padded + optTok v"
    using len by (rule colTokens_update)
  moreover have "colTokens padded = colTokens col"
    by (simp add: padded_def colTokens_append colTokens_replicate)
  ultimately show ?thesis using False old
    by (simp add: setCol_def getCol_def padded_def optTok_def)
qed

lemma tokens_update:
  "x < length gs \<Longrightarrow> tokens (gs[x := col]) + colTokens (gs ! x) = tokens gs + colTokens col"
proof -
  assume x: "x < length gs"
  have "tokens (gs[x := col]) = tokens (take x gs) + colTokens col + tokens (drop (Suc x) gs)"
    using x by (simp add: upd_conv_take_nth_drop tokens_def)
  moreover have "tokens gs = tokens (take x gs) + colTokens (gs ! x) + tokens (drop (Suc x) gs)"
  proof -
    have "gs = take x gs @ gs ! x # drop (Suc x) gs" using x by (rule id_take_nth_drop)
    then have "tokens gs = tokens (take x gs @ gs ! x # drop (Suc x) gs)" by simp
    then show ?thesis by (simp add: tokens_def)
  qed
  ultimately show ?thesis by simp
qed

lemma tokens_setCell:
  assumes "setCell gs x y v = Inr gs'" and "getCell gs x y = Inr c"
  shows "tokens gs' + optTok c = tokens gs + optTok v"
proof -
  from assms have x: "x < length gs" and gs': "gs' = gs[x := setCol (gs ! x) y v]"
    and c: "c = getCol (gs ! x) y"
    by (auto simp: setCell_setCol getCell_getCol split: if_splits)
  have "tokens gs' + colTokens (gs ! x) + optTok c
        = tokens gs + (colTokens (setCol (gs ! x) y v) + optTok (getCol (gs ! x) y))"
    using tokens_update [OF x, of "setCol (gs ! x) y v"] by (simp add: gs' c)
  also have "\<dots> = tokens gs + colTokens (gs ! x) + optTok v"
    by (simp add: colTokens_setCol)
  finally show ?thesis by simp
qed

lemma sameFrame_refl: "sameFrame s s"
  by (simp add: sameFrame_def)

lemma sameFrame_trans: "sameFrame s s' \<Longrightarrow> sameFrame s' s'' \<Longrightarrow> sameFrame s s''"
  by (simp add: sameFrame_def)

text \<open>
  The invariant of the falling loop in a column: when row \<open>y\<close> is reached, the
  \<^verbatim>\<open>fallDistance\<close> cells below it are empty, so the cell a gem falls to is empty.
\<close>

lemma fallStep_inv:
  assumes x: "x < length (gems s)"
    and inv: "\<And>k. y < k \<Longrightarrow> k \<le> y + fd \<Longrightarrow> getCell (gems s) x k = Inr None"
  shows "\<exists>fd' s'. fallStep x y (fd, s) = Inr (fd', s') \<and> sameFrame s s'
           \<and> (\<forall>k. y \<le> k \<and> k < y + fd' \<longrightarrow> getCell (gems s') x k = Inr None)"
proof -
  obtain c where c: "getCell (gems s) x y = Inr c"
    using x by (simp add: getCell_def)
  show ?thesis
  proof (cases c)
    case None
    have "\<forall>k. y \<le> k \<and> k < y + (fd + 1) \<longrightarrow> getCell (gems s) x k = Inr None"
    proof (intro allI impI)
      fix k assume k: "y \<le> k \<and> k < y + (fd + 1)"
      show "getCell (gems s) x k = Inr None"
      proof (cases "k = y")
        case True
        then show ?thesis using c None by simp
      next
        case False
        then show ?thesis using k inv [of k] by simp
      qed
    qed
    then show ?thesis using c None by (simp add: fallStep_def sameFrame_refl)
  next
    case (Some gem)
    show ?thesis
    proof (cases "fd > 0")
      case False
      then show ?thesis using c Some by (auto simp: fallStep_def sameFrame_refl)
    next
      case True
      obtain gs1 where gs1: "setCell (gems s) x y None = Inr gs1"
        using setCell_total [OF x] by blast
      have x1: "x < length gs1" using setCell_length [OF gs1] x by simp
      obtain gs2 where gs2: "setCell gs1 x (y + fd) (Some gem) = Inr gs2"
        using setCell_total [OF x1] by blast
      define s' where "s' = s\<lparr>gems := gs2,
          heap := (heap s)[gem := (heap s ! gem)\<lparr>gridY := gridY (heap s ! gem) + fd\<rparr>]\<rparr>"
      have step: "fallStep x y (fd, s) = Inr (fd, s')"
        using c Some True gs1 gs2 by (simp add: fallStep_def s'_def)
      have t1: "tokens gs1 + {#gem#} = tokens (gems s)"
        using tokens_setCell [OF gs1 c] Some by (simp add: optTok_def)
      have target: "getCell gs1 x (y + fd) = Inr None"
        using getCell_setCell [OF gs1, of x "y + fd"] True inv [of "y + fd"] by simp
      have t2: "tokens gs2 = tokens gs1 + {#gem#}"
        using tokens_setCell [OF gs2 target] by (simp add: optTok_def)
      have frame: "sameFrame s s'"
        using t1 t2 setCell_length [OF gs1] setCell_length [OF gs2]
        by (simp add: sameFrame_def s'_def)
      have "\<forall>k. y \<le> k \<and> k < y + fd \<longrightarrow> getCell (gems s') x k = Inr None"
      proof (intro allI impI)
        fix k assume k: "y \<le> k \<and> k < y + fd"
        have "getCell gs2 x k = getCell gs1 x k"
          using getCell_setCell [OF gs2, of x k] k by simp
        also have "\<dots> = Inr None"
        proof (cases "k = y")
          case True
          then show ?thesis using getCell_setCell [OF gs1, of x k] by simp
        next
          case False
          then show ?thesis using getCell_setCell [OF gs1, of x k] k inv [of k] by simp
        qed
        finally show "getCell (gems s') x k = Inr None" by (simp add: s'_def)
      qed
      with step frame show ?thesis by blast
    qed
  qed
qed

lemma fallLoop_inv:
  "x < length (gems s) \<Longrightarrow>
   (\<And>k. n \<le> k \<Longrightarrow> k < n + fd \<Longrightarrow> getCell (gems s) x k = Inr None) \<Longrightarrow>
   \<exists>fd' s'. forEach (rev [0..<n]) (fallStep x) (fd, s) = Inr (fd', s') \<and> sameFrame s s'"
proof (induction n arbitrary: fd s)
  case 0
  then show ?case by (simp add: sameFrame_refl)
next
  case (Suc n)
  have "\<exists>fd1 s1. fallStep x n (fd, s) = Inr (fd1, s1) \<and> sameFrame s s1
           \<and> (\<forall>k. n \<le> k \<and> k < n + fd1 \<longrightarrow> getCell (gems s1) x k = Inr None)"
    using Suc.prems by (intro fallStep_inv) auto
  then obtain fd1 s1 where step: "fallStep x n (fd, s) = Inr (fd1, s1)"
    and fr: "sameFrame s s1"
    and inv1: "\<And>k. n \<le> k \<Longrightarrow> k < n + fd1 \<Longrightarrow> getCell (gems s1) x k = Inr None"
    by blast
  have x1: "x < length (gems s1)" using fr Suc.prems(1) by (simp add: sameFrame_def)
  from Suc.IH [OF x1 inv1] obtain fd' s' where
    rest: "forEach (rev [0..<n]) (fallStep x) (fd1, s1) = Inr (fd', s')" and fr': "sameFrame s1 s'"
    by blast
  have "forEach (rev [0..<Suc n]) (fallStep x) (fd, s) = Inr (fd', s')"
    using step rest by simp
  with sameFrame_trans [OF fr fr'] show ?case by blast
qed

lemma fallColumn_frame:
  "x < length (gems s) \<Longrightarrow> \<exists>s'. fallColumn x s = Inr s' \<and> sameFrame s s'"
proof -
  assume x: "x < length (gems s)"
  from fallLoop_inv [OF x, of "height s" 0] obtain fd' s' where
    "forEach (rev [0..<height s]) (fallStep x) (0, s) = Inr (fd', s')" "sameFrame s s'"
    by auto
  then show ?thesis by (auto simp: fallColumn_def)
qed

lemma fallColumns_frame:
  "\<forall>x \<in> set xs. x < length (gems s) \<Longrightarrow> \<exists>s'. forEach xs fallColumn s = Inr s' \<and> sameFrame s s'"
proof (induction xs arbitrary: s)
  case Nil
  then show ?case by (simp add: sameFrame_refl)
next
  case (Cons x xs)
  then have "x < length (gems s)" by simp
  from fallColumn_frame [OF this] obtain s1 where
    s1: "fallColumn x s = Inr s1" and fr: "sameFrame s s1" by blast
  have "\<forall>x \<in> set xs. x < length (gems s1)"
    using Cons.prems fr by (simp add: sameFrame_def)
  from Cons.IH [OF this] obtain s' where
    "forEach xs fallColumn s1 = Inr s'" "sameFrame s1 s'" by blast
  with s1 fr show ?case by (auto intro: sameFrame_trans)
qed

lemma fallGems_conserves:
  assumes "width s \<le> length (gems s)"
  shows "\<exists>s'. fallGems s = Inr s' \<and> tokens (gems s') = tokens (gems s)
           \<and> length (heap s') = length (heap s)"
proof -
  have "\<forall>x \<in> set [0..<width s]. x < length (gems s)" using assms by simp
  from fallColumns_frame [OF this] show ?thesis
    by (auto simp: fallGems_def sameFrame_def)
qed

text \<open>A loop keeps a relation between the states that each run of its body keeps.\<close>

lemma forEach_rel:
  assumes step: "\<And>i st st'. body i st = Inr st' \<Longrightarrow> R st st'"
    and refl: "\<And>st. R st st"
    and trans: "\<And>a b c. R a b \<Longrightarrow> R b c \<Longrightarrow> R a c"
  shows "forEach is body st = Inr st' \<Longrightarrow> R st st'"
proof (induction "is" arbitrary: st)
  case Nil
  then show ?case by (simp add: refl)
next
  case (Cons i "is")
  from Cons.prems obtain st1 where a: "body i st = Inr st1" and b: "forEach is body st1 = Inr st'"
    by (auto split: sum.splits)
  from step [OF a] Cons.IH [OF b] show ?case by (rule trans)
qed

lemma removeGem_only_removes:
  assumes "removeGem c s = Inr s'"
  shows "tokens (gems s') \<subseteq># tokens (gems s) \<and> heap s' = heap s"
proof -
  from assms obtain g gs where c: "c = Some g"
    and w: "setCell (gems s) (gridX (heap s ! g)) (gridY (heap s ! g)) None = Inr gs"
    and s': "s' = s\<lparr>gems := gs\<rparr>"
    by (auto simp: removeGem_def split: option.splits sum.splits)
  obtain old where old: "getCell (gems s) (gridX (heap s ! g)) (gridY (heap s ! g)) = Inr old"
    using w by (auto simp: setCell_def getCell_def split: if_splits)
  from tokens_setCell [OF w old] have "tokens gs + optTok old = tokens (gems s)"
    by (simp add: optTok_def)
  then have "tokens gs \<subseteq># tokens (gems s)" by (metis mset_subset_eq_add_left)
  then show ?thesis by (simp add: s')
qed

lemma removeMatches_only_removes:
  "removeMatches s ms = Inr s' \<Longrightarrow> tokens (gems s') \<subseteq># tokens (gems s) \<and> heap s' = heap s"
  unfolding removeMatches_def
proof (erule forEach_rel [rotated 3], goal_cases)
  case (1 m st st')
  then show ?case
  proof (rule forEach_rel [rotated 3], goal_cases)
    case (1 c a b)
    then show ?case by (rule removeGem_only_removes)
  next
    case (2 a)
    show ?case by simp
  next
    case (3 a b c)
    then show ?case by auto
  qed
next
  case (2 st)
  show ?case by simp
next
  case (3 a b c)
  then show ?case by auto
qed

lemma createGemAt_gems:
  "createGemAt rnd s x y = Inr (gem, s1) \<Longrightarrow>
   gems s1 = gems s \<and> width s1 = width s \<and> height s1 = height s"
  by (auto simp: createGemAt_def Let_def split: sum.splits)

lemma refillStep_only_adds:
  assumes "refillStep rnd x y s = Inr s'"
  shows "tokens (gems s) \<subseteq># tokens (gems s')"
proof -
  obtain c where c: "getCell (gems s) x y = Inr c"
    using assms by (auto simp: refillStep_def split: sum.splits)
  show ?thesis
  proof (cases c)
    case (Some g)
    then show ?thesis using assms c by (simp add: refillStep_def)
  next
    case None
    from assms c None obtain gem s1 gs where
      cr: "createGemAt rnd s x y = Inr (gem, s1)"
      and w: "setCell (gems s1) x y (Some gem) = Inr gs"
      and s': "s' = s1\<lparr>gems := gs\<rparr>"
      by (auto simp: refillStep_def split: sum.splits)
    have same: "gems s1 = gems s" using createGemAt_gems [OF cr] by simp
    from tokens_setCell [OF w] c None same have "tokens gs = tokens (gems s) + {#gem#}"
      by (simp add: optTok_def)
    then show ?thesis by (simp add: s')
  qed
qed

lemma refillBoard_only_adds:
  "refillBoard rnd s = Inr s' \<Longrightarrow> tokens (gems s) \<subseteq># tokens (gems s')"
  unfolding refillBoard_def
proof (erule forEach_rel [rotated 3], goal_cases)
  case (1 x st st')
  then show ?case
  proof (rule forEach_rel [rotated 3], goal_cases)
    case (1 y a b)
    then show ?case by (rule refillStep_only_adds)
  next
    case (2 a)
    show ?case by simp
  next
    case (3 a b c)
    then show ?case by (rule subset_mset.order_trans)
  qed
next
  case (2 st)
  show ?case by simp
next
  case (3 a b c)
  then show ?case by (rule subset_mset.order_trans)
qed

text \<open>
  C8: the gravity pass (the loop of \<^verbatim>\<open>handleFalling\<close> before the refill), on a grid array
  that has its \<open>width\<close> columns, runs without an exception and leaves the multiset of the
  gems on the board as it was, and allocates no gem. The removal only takes gems off the
  board and allocates none; the refill takes none off the board.
\<close>

theorem C8_tokens_conserved:
  "(width s \<le> length (gems s) \<longrightarrow>
      (\<exists>s'. fallGems s = Inr s' \<and> tokens (gems s') = tokens (gems s)
            \<and> length (heap s') = length (heap s)))
   \<and> (removeMatches r ms = Inr r' \<longrightarrow>
        tokens (gems r') \<subseteq># tokens (gems r) \<and> heap r' = heap r)
   \<and> (refillBoard rnd f = Inr f' \<longrightarrow> tokens (gems f) \<subseteq># tokens (gems f'))"
  using fallGems_conserves [of s] removeMatches_only_removes [of r ms r']
    refillBoard_only_adds [of rnd f f']
  by blast

theorem C8_tokens_conserved_witness:
  "removeMatches cascadeBoard redRun = Inr removedBoard
   \<and> tokens (gems removedBoard) \<subseteq># tokens (gems cascadeBoard)
   \<and> fallGems removedBoard = Inr fallenBoard
   \<and> tokens (gems fallenBoard) = tokens (gems removedBoard)
   \<and> length (heap fallenBoard) = length (heap removedBoard)
   \<and> refillBoard draws fallenBoard = Inr refilledBoard
   \<and> tokens (gems fallenBoard) \<subseteq># tokens (gems refilledBoard)"
proof -
  have rm: "removeMatches cascadeBoard redRun = Inr removedBoard" by code_simp
  have w: "width removedBoard \<le> length (gems removedBoard)" by code_simp
  have fall: "fallGems removedBoard = Inr fallenBoard" by code_simp
  have fill: "refillBoard draws fallenBoard = Inr refilledBoard" by code_simp
  note c8 = C8_tokens_conserved
    [of removedBoard cascadeBoard redRun removedBoard draws fallenBoard refilledBoard]
  from c8 w obtain s' where "fallGems removedBoard = Inr s'"
    and "tokens (gems s') = tokens (gems removedBoard)"
    and "length (heap s') = length (heap removedBoard)"
    by blast
  with fall have gravity: "tokens (gems fallenBoard) = tokens (gems removedBoard)"
    "length (heap fallenBoard) = length (heap removedBoard)"
    by simp_all
  from c8 rm have removal: "tokens (gems removedBoard) \<subseteq># tokens (gems cascadeBoard)"
    by blast
  from c8 fill have refill: "tokens (gems fallenBoard) \<subseteq># tokens (gems refilledBoard)"
    by blast
  from rm fall fill gravity removal refill show ?thesis by blast
qed

section \<open>The end of a cascade\<close>

lemma keepsCells_refl: "keepsCells s s"
  by (simp add: keepsCells_def)

lemma keepsCells_trans: "keepsCells s s' \<Longrightarrow> keepsCells s' s'' \<Longrightarrow> keepsCells s s''"
  by (simp add: keepsCells_def)

lemma refillStep_fills:
  assumes "refillStep rnd x y s = Inr s'"
  shows "filled s' x y \<and> keepsCells s s'"
proof -
  obtain c where c: "getCell (gems s) x y = Inr c"
    using assms by (auto simp: refillStep_def split: sum.splits)
  show ?thesis
  proof (cases c)
    case (Some g)
    then show ?thesis using assms c by (simp add: refillStep_def filled_def keepsCells_refl)
  next
    case None
    from assms c None obtain gem s1 gs where
      cr: "createGemAt rnd s x y = Inr (gem, s1)"
      and w: "setCell (gems s1) x y (Some gem) = Inr gs"
      and s': "s' = s1\<lparr>gems := gs\<rparr>"
      by (auto simp: refillStep_def split: sum.splits)
    note same = createGemAt_gems [OF cr]
    have here: "filled s' x y"
      using getCell_setCell [OF w, of x y] by (simp add: filled_def s')
    have "\<And>x' y'. filled s x' y' \<Longrightarrow> filled s' x' y'"
      using getCell_setCell [OF w] same by (auto simp: filled_def s')
    then show ?thesis using here same by (simp add: keepsCells_def s')
  qed
qed

lemma refillColumn_fills:
  "forEach ys (refillStep rnd x) s = Inr s' \<Longrightarrow>
   (\<forall>y \<in> set ys. filled s' x y) \<and> keepsCells s s'"
proof (induction ys arbitrary: s)
  case Nil
  then show ?case by (simp add: keepsCells_refl)
next
  case (Cons y ys)
  from Cons.prems obtain s1 where
    step: "refillStep rnd x y s = Inr s1" and rest: "forEach ys (refillStep rnd x) s1 = Inr s'"
    by (auto split: sum.splits)
  from refillStep_fills [OF step] have f1: "filled s1 x y" and k1: "keepsCells s s1" by simp_all
  from Cons.IH [OF rest] have f2: "\<forall>y \<in> set ys. filled s' x y" and k2: "keepsCells s1 s'"
    by simp_all
  from f1 k2 have "filled s' x y" by (simp add: keepsCells_def)
  with f2 keepsCells_trans [OF k1 k2] show ?case by simp
qed

lemma refillColumns_fill:
  "forEach xs (\<lambda>x. forEach [0..<h] (refillStep rnd x)) s = Inr s' \<Longrightarrow>
   (\<forall>x \<in> set xs. \<forall>y < h. filled s' x y) \<and> keepsCells s s'"
proof (induction xs arbitrary: s)
  case Nil
  then show ?case by (simp add: keepsCells_refl)
next
  case (Cons x xs)
  from Cons.prems obtain s1 where
    col: "forEach [0..<h] (refillStep rnd x) s = Inr s1"
    and rest: "forEach xs (\<lambda>x. forEach [0..<h] (refillStep rnd x)) s1 = Inr s'"
    by (auto split: sum.splits)
  from refillColumn_fills [OF col] have f1: "\<forall>y < h. filled s1 x y" and k1: "keepsCells s s1"
    by simp_all
  from Cons.IH [OF rest] have f2: "\<forall>x \<in> set xs. \<forall>y < h. filled s' x y" and k2: "keepsCells s1 s'"
    by simp_all
  from f1 k2 have "\<forall>y < h. filled s' x y" by (simp add: keepsCells_def)
  with f2 keepsCells_trans [OF k1 k2] show ?case by simp
qed

lemma refillBoard_full: "refillBoard rnd s = Inr s' \<Longrightarrow> full s'"
  using refillColumns_fill [of "[0..<width s]" "height s" rnd s s']
  by (simp add: refillBoard_def full_def keepsCells_def)

lemma refillColumn_full:
  "\<forall>y \<in> set ys. filled s x y \<Longrightarrow> forEach ys (refillStep rnd x) s = Inr s"
  by (induction ys) (auto simp: refillStep_def filled_def)

lemma refillColumns_full:
  "\<forall>x \<in> set xs. \<forall>y < h. filled s x y \<Longrightarrow>
   forEach xs (\<lambda>x. forEach [0..<h] (refillStep rnd x)) s = Inr s"
  by (induction xs) (simp_all add: refillColumn_full)

lemma refillBoard_noop: "full s \<Longrightarrow> refillBoard rnd s = Inr s"
  by (simp add: refillBoard_def full_def refillColumns_full)

lemma fallLoop_full:
  "\<forall>y < n. filled s x y \<Longrightarrow> forEach (rev [0..<n]) (fallStep x) (0, s) = Inr (0, s)"
  by (induction n) (auto simp: fallStep_def filled_def)

lemma fallColumns_full:
  "\<forall>x \<in> set xs. \<forall>y < height s. filled s x y \<Longrightarrow> forEach xs fallColumn s = Inr s"
  by (induction xs) (simp_all add: fallColumn_def fallLoop_full)

lemma fallGems_noop: "full s \<Longrightarrow> fallGems s = Inr s"
  by (simp add: fallGems_def full_def fallColumns_full)

lemma handleFalling_full: "handleFalling rnd s = Inr s' \<Longrightarrow> full s'"
  by (auto simp: handleFalling_def split: sum.splits dest: refillBoard_full)

lemma handleFalling_noop: "full s \<Longrightarrow> handleFalling rnd s = Inr s"
  by (simp add: handleFalling_def fallGems_noop refillBoard_noop)

text \<open>
  The refill always has a type to choose from: at most two of the six types are excluded,
  so the index that \<^verbatim>\<open>createGemAt\<close> draws is within \<^verbatim>\<open>availableTypes\<close>.
\<close>

lemma excludeRun_length:
  "excludeRun s p1 p2 bad = Inr bad' \<Longrightarrow> length bad' \<le> Suc (length bad)"
  by (auto simp: excludeRun_def split: sum.splits if_splits option.splits)

lemma four_types_left:
  assumes "length bad \<le> 2"
  shows "filter (\<lambda>t. t \<notin> set bad) allTypes \<noteq> []"
proof -
  have "\<exists>t \<in> set allTypes. t \<notin> set bad"
  proof (rule ccontr)
    assume "\<not> (\<exists>t \<in> set allTypes. t \<notin> set bad)"
    then have "set allTypes \<subseteq> set bad" by auto
    then have "card (set allTypes) \<le> card (set bad)" by (intro card_mono) auto
    moreover have "card (set allTypes) = 6" by (simp add: allTypes_def)
    moreover have "card (set bad) \<le> length bad" by (rule card_length)
    ultimately show False using assms by simp
  qed
  then show ?thesis by (auto simp: filter_empty_conv)
qed

lemma getAvailableGemTypes_nonempty:
  assumes "getAvailableGemTypes s x y = Inr ts"
  shows "ts \<noteq> []"
proof (cases "x < 2 \<and> y < 2")
  case True
  then show ?thesis using assms by (auto simp: getAvailableGemTypes_def allTypes_def)
next
  case False
  with assms obtain bad1 bad2 where
    a: "(if x \<ge> 2 then excludeRun s (x - 1, y) (x - 2, y) [] else Inr []) = Inr bad1"
    and b: "(if y \<ge> 2 then excludeRun s (x, y - 1) (x, y - 2) bad1 else Inr bad1) = Inr bad2"
    and ts: "ts = filter (\<lambda>t. t \<notin> set bad2) allTypes"
    by (auto simp: getAvailableGemTypes_def split: sum.splits)
  from a have "length bad1 \<le> 1"
    by (auto split: if_splits dest: excludeRun_length)
  with b have "length bad2 \<le> 2"
    by (auto split: if_splits dest: excludeRun_length)
  then show ?thesis unfolding ts by (rule four_types_left)
qed

text \<open>
  A cascade that returns does so right after a refill that left no match: the board it
  returns has no match and a gem in every cell.
\<close>

lemma processMatches_stable:
  assumes "processMatches sc rnd s ms = Some r"
  shows "\<forall>s'. r = Inr s' \<longrightarrow> findMatches s' = Inr [] \<and> full s'"
proof (rule processMatches.raw_induct
    [where P = "\<lambda>sc rnd s ms r. \<forall>s'. r = Inr s' \<longrightarrow> findMatches s' = Inr [] \<and> full s'",
     OF _ assms], goal_cases)
  case (1 pm sc rnd s ms r)
  show ?case
  proof (intro allI impI)
    fix s' assume r: "r = Inr s'"
    from 1(2) r show "findMatches s' = Inr [] \<and> full s'"
      by (auto split: sum.splits if_splits dest: 1(1) handleFalling_full)
  qed
qed

text \<open>
  What the grid's own code does, given a scene whose score update returns on the empty
  list (or a scene without one): whenever \<^verbatim>\<open>processMatches\<close> returns, \<^verbatim>\<open>findMatches\<close> on the
  board it returns with is empty, and running the resolution again at once, on that empty
  list of matches, returns the same state: nothing is removed, nothing falls, no gem is
  created and no random number is drawn.
\<close>

lemma cascade_ends_without_matches:
  assumes "processMatches sc rnd s ms = Some (Inr s')"
    and "sceneUpdateScore sc [] = Inr ()"
  shows "findMatches s' = Inr [] \<and> processMatches sc rnd s' [] = Some (Inr s')"
proof -
  from processMatches_stable [OF assms(1)] have none: "findMatches s' = Inr []" and f: "full s'"
    by simp_all
  have "removeMatches s' [] = Inr s'" by (simp add: removeMatches_def)
  moreover have "markMatched [] = Inr ()" by (simp add: markMatched_def)
  ultimately have "processMatches sc rnd s' [] = Some (Inr s')"
    using none handleFalling_noop [OF f] assms(2) by (subst processMatches.simps) simp
  with none show ?thesis by simp
qed

lemma cascade_without_score_update:
  "processMatches bareScene draws cascadeBoard redRun = Some (Inr settledBoard)
   \<and> findMatches settledBoard = Inr []
   \<and> processMatches bareScene draws settledBoard [] = Some (Inr settledBoard)"
proof -
  have run: "processMatches bareScene draws cascadeBoard redRun = Some (Inr settledBoard)"
    by code_simp
  have "sceneUpdateScore bareScene [] = Inr ()"
    by (simp add: sceneUpdateScore_def bareScene_def)
  from run cascade_ends_without_matches [OF run this] show ?thesis by simp
qed




section \<open>The reshuffle loop\<close>

lemma shuffle_single: "singleCell s \<Longrightarrow> shuffleGems rnd s = Inr s"
  by (auto simp: singleCell_def shuffleGems_def Let_def le_Suc_eq)

lemma adjacent_single: "singleCell s \<Longrightarrow> getAdjacentGems s 0 0 = Inr []"
  by (simp add: singleCell_def getAdjacentGems_def directions_def isValidGridPosition_def)

lemma hasValidMoves_single:
  assumes "singleCell s"
  shows "hasValidMoves s = Inr (False, s)"
proof -
  have "width s = 1" "height s = 1" using assms by (simp_all add: singleCell_def)
  then show ?thesis using adjacent_single [OF assms] by (simp add: hasValidMoves_def)
qed

text \<open>
  On a board of one cell the shuffle changes nothing and no move is found, so each
  round of the loop starts from the state the round before started from.
\<close>

lemma reshuffleLoop_single:
  assumes "reshuffleLoop rnd s = Some r"
  shows "\<not> singleCell s"
proof (rule reshuffleLoop.raw_induct [where P = "\<lambda>rnd s r. \<not> singleCell s", OF _ assms],
    goal_cases)
  case (1 loop rnd s r)
  show ?case
  proof
    assume single: "singleCell s"
    with 1(2) have "loop rnd s = Some r"
      by (simp add: shuffle_single hasValidMoves_single)
    from 1(1) [OF this] single show False by simp
  qed
qed

lemma reshuffleBoard_single:
  assumes "singleCell s"
  shows "reshuffleBoard rnd s = None"
proof -
  have "singleCell (s\<lparr>canInput := False\<rparr>)" using assms by (simp add: singleCell_def)
  then have "reshuffleLoop rnd (s\<lparr>canInput := False\<rparr>) = None"
    using reshuffleLoop_single [of rnd "s\<lparr>canInput := False\<rparr>"]
    by (cases "reshuffleLoop rnd (s\<lparr>canInput := False\<rparr>)") auto
  then show ?thesis by (simp add: reshuffleBoard_def)
qed

text \<open>
  When a loop with early exit returns \<^verbatim>\<open>true\<close>, the state it returns is the one some run
  of its body returned \<^verbatim>\<open>true\<close> with.
\<close>

lemma firstHit_True:
  "firstHit is body st = Inr (True, st') \<Longrightarrow> \<exists>i st0. body i st0 = Inr (True, st')"
proof (induction "is" arbitrary: st)
  case Nil
  then show ?case by simp
next
  case (Cons i "is")
  show ?case
  proof (cases "body i st")
    case (Inl e)
    with Cons.prems show ?thesis by simp
  next
    case (Inr p)
    obtain found st1 where p: "p = (found, st1)" by (cases p)
    show ?thesis
    proof (cases found)
      case True
      with Cons.prems Inr p have "body i st = Inr (True, st')" by simp
      then show ?thesis by blast
    next
      case False
      with Cons.prems Inr p have "firstHit is body st1 = Inr (True, st')" by simp
      then show ?thesis by (rule Cons.IH)
    qed
  qed
qed

lemma hasValidMoves_True:
  assumes "hasValidMoves s = Inr (True, s')"
  shows "\<exists>st c1 c2. wouldCreateMatch st c1 c2 = Inr (True, s')"
proof -
  from assms obtain x st1 where
    "firstHit [0..<height s] (\<lambda>y st.
         case getAdjacentGems st (int x) (int y) of
           Inl e \<Rightarrow> Inl e
         | Inr adjacent \<Rightarrow>
             firstHit adjacent (\<lambda>adjGem st'.
               case getCell (gems st') x y of
                 Inl e \<Rightarrow> Inl e
               | Inr gem \<Rightarrow> wouldCreateMatch st' gem adjGem) st) st1 = Inr (True, s')"
    unfolding hasValidMoves_def by (blast dest: firstHit_True)
  then obtain y st2 where
    "(case getAdjacentGems st2 (int x) (int y) of
           Inl e \<Rightarrow> Inl e
         | Inr adjacent \<Rightarrow>
             firstHit adjacent (\<lambda>adjGem st'.
               case getCell (gems st') x y of
                 Inl e \<Rightarrow> Inl e
               | Inr gem \<Rightarrow> wouldCreateMatch st' gem adjGem) st2) = Inr (True, s')"
    by (blast dest: firstHit_True)
  then obtain adjacent where
    "firstHit adjacent (\<lambda>adjGem st'.
               case getCell (gems st') x y of
                 Inl e \<Rightarrow> Inl e
               | Inr gem \<Rightarrow> wouldCreateMatch st' gem adjGem) st2 = Inr (True, s')"
    by (auto split: sum.splits)
  then obtain adjGem st3 where
    "(case getCell (gems st3) x y of
                 Inl e \<Rightarrow> Inl e
               | Inr gem \<Rightarrow> wouldCreateMatch st3 gem adjGem) = Inr (True, s')"
    by (blast dest: firstHit_True)
  then show ?thesis by (auto split: sum.splits)
qed

text \<open>The scan for runs reads the grid array and the types of the gems, not their coordinates.\<close>


lemma sameTypes_setGridPos: "sameTypes h (setGridPos h g x y)"
  by (cases "g < length h") (auto simp: sameTypes_def setGridPos_def nth_list_update list_update_beyond)

lemma sameTypes_trans: "sameTypes a b \<Longrightarrow> sameTypes b c \<Longrightarrow> sameTypes a c"
  by (simp add: sameTypes_def)

lemma sameTypes_sym: "sameTypes a b \<Longrightarrow> sameTypes b a"
  by (simp add: sameTypes_def)

lemma typeOf_sameTypes: "sameTypes h h' \<Longrightarrow> typeOf (s\<lparr>heap := h\<rparr>) c = typeOf (s\<lparr>heap := h'\<rparr>) c"
  by (cases c) (simp_all add: typeOf_def sameTypes_def)

lemma scanStep_sameTypes:
  "sameTypes h h' \<Longrightarrow> scanStep (s\<lparr>heap := h\<rparr>) = scanStep (s\<lparr>heap := h'\<rparr>)"
  by (intro ext) (simp add: scanStep_def typeOf_sameTypes [of h h'] split: prod.splits)

lemma scanLine_sameTypes:
  "sameTypes h h' \<Longrightarrow> scanLine (s\<lparr>heap := h\<rparr>) = scanLine (s\<lparr>heap := h'\<rparr>)"
  by (intro ext) (simp add: scanLine_def scanStep_sameTypes [of h h'] cong: sum.case_cong)

lemma findRuns_sameTypes:
  "sameTypes h h' \<Longrightarrow> findRuns (s\<lparr>heap := h\<rparr>) = findRuns (s\<lparr>heap := h'\<rparr>)"
  by (simp add: findRuns_def scanLine_sameTypes [of h h'] cong: sum.case_cong)

text \<open>
  Consolidation never drops the first run, so \<^verbatim>\<open>findMatches\<close> is empty exactly when the
  scan finds no run.
\<close>

lemma consolidateStep_grows:
  "consolidateStep s mm m (cms, pr) = Inr (cms', pr') \<Longrightarrow> length cms \<le> length cms'"
  by (auto simp: consolidateStep_def split: sum.splits bool.splits if_splits)

lemma consolidate_loop_grows:
  "forEach ms (consolidateStep s mm) (cms, pr) = Inr (cms', pr') \<Longrightarrow> length cms \<le> length cms'"
proof (induction ms arbitrary: cms pr)
  case Nil
  then show ?case by simp
next
  case (Cons m ms)
  from Cons.prems obtain cms1 pr1 where
    a: "consolidateStep s mm m (cms, pr) = Inr (cms1, pr1)"
    and b: "forEach ms (consolidateStep s mm) (cms1, pr1) = Inr (cms', pr')"
    by (auto split: sum.splits)
  from consolidateStep_grows [OF a] Cons.IH [OF b] show ?case by simp
qed

lemma someProcessed_empty: "someProcessed s {} gs \<noteq> Inr True"
  by (induction s "{} :: (nat \<times> nat) set" gs rule: someProcessed.induct) auto

lemma consolidateStep_first:
  "consolidateStep s mm m ([], {}) = Inr (cms', pr') \<Longrightarrow> cms' \<noteq> []"
  using someProcessed_empty [of s "mgems m"]
  by (auto simp: consolidateStep_def split: sum.splits bool.splits if_splits)

lemma consolidateMatches_nonempty:
  assumes "consolidateMatches s ms = Inr cms" and "ms \<noteq> []"
  shows "cms \<noteq> []"
proof -
  from assms(2) obtain m rest where ms: "ms = m # rest" by (cases ms) auto
  from assms(1) obtain mm pr where
    loop: "forEach ms (consolidateStep s mm) ([], {}) = Inr (cms, pr)"
    by (auto simp: consolidateMatches_def split: sum.splits)
  then obtain cms1 pr1 where
    a: "consolidateStep s mm m ([], {}) = Inr (cms1, pr1)"
    and b: "forEach rest (consolidateStep s mm) (cms1, pr1) = Inr (cms, pr)"
    unfolding ms by (auto split: sum.splits)
  from consolidateStep_first [OF a] consolidate_loop_grows [OF b] show ?thesis by auto
qed

lemma consolidateMatches_Nil: "consolidateMatches s [] = Inr []"
  by (simp add: consolidateMatches_def buildMatchMap_def)

lemma findMatches_empty_iff:
  "findMatches s = Inr [] \<longleftrightarrow> findRuns s = Inr []"
  by (auto simp: findMatches_def consolidateMatches_Nil split: sum.splits
      dest: consolidateMatches_nonempty)

text \<open>
  A probe that reports a match found it on the grid array as it stands, since the probe
  exchanges coordinates only: the board it returns has a match already.
\<close>

lemma wouldCreateMatch_True:
  assumes "wouldCreateMatch st c1 c2 = Inr (True, s')"
  shows "findMatches s' \<noteq> Inr []"
proof -
  from assms obtain g1 g2 where c: "c1 = Some g1" "c2 = Some g2"
    by (cases c1; cases c2) auto
  define h2 where "h2 = setGridPos (setGridPos (heap st) g1 (gridX (heap st ! g2)) (gridY (heap st ! g2)))
      g2 (gridX (heap st ! g1)) (gridY (heap st ! g1))"
  define h3 where "h3 = setGridPos h2 g1 (gridX (heap st ! g1)) (gridY (heap st ! g1))"
  define h4 where "h4 = setGridPos h3 g2 (gridX (h3 ! g1)) (gridY (h3 ! g1))"
  from assms c obtain ms where ms: "findMatches (st\<lparr>heap := h2\<rparr>) = Inr ms" "ms \<noteq> []"
    and s': "s' = st\<lparr>heap := h4\<rparr>"
    by (auto simp: Let_def h2_def h3_def h4_def split: sum.splits)
  have "findRuns (st\<lparr>heap := h2\<rparr>) \<noteq> Inr []"
    using ms findMatches_empty_iff [of "st\<lparr>heap := h2\<rparr>"] by auto
  moreover have "sameTypes h2 h4"
    unfolding h4_def h3_def by (blast intro: sameTypes_trans sameTypes_setGridPos)
  ultimately have "findRuns (st\<lparr>heap := h4\<rparr>) \<noteq> Inr []"
    using findRuns_sameTypes [of h2 h4 st] by simp
  then show ?thesis by (simp add: s' findMatches_empty_iff)
qed

text \<open>
  So the test of the retry loop never lets it end: when \<^verbatim>\<open>hasValidMoves\<close> is true,
  \<^verbatim>\<open>findMatches\<close> is not empty. On no board does the reshuffle return a board.
\<close>

lemma reshuffleLoop_no_board:
  assumes "reshuffleLoop rnd s = Some r"
  shows "\<forall>s'. r \<noteq> Inr s'"
proof (rule reshuffleLoop.raw_induct [where P = "\<lambda>rnd s r. \<forall>s'. r \<noteq> Inr s'", OF _ assms],
    goal_cases)
  case (1 loop rnd s r)
  show ?case
  proof (intro allI notI)
    fix s' assume r: "r = Inr s'"
    have again: "\<And>b. loop rnd b \<noteq> Some (Inr s')" using 1(1) by blast
    from 1(2) r obtain s1 where
      hv: "hasValidMoves s1 = Inr (True, s')" and fm: "findMatches s' = Inr []"
      by (auto simp: again split: sum.splits if_splits bool.splits)
    from hasValidMoves_True [OF hv] wouldCreateMatch_True fm show False by blast
  qed
qed

lemma reshuffleBoard_never_returns_board: "reshuffleBoard rnd s \<noteq> Some (Inr s')"
  using reshuffleLoop_no_board [of rnd "s\<lparr>canInput := False\<rparr>"]
  by (auto simp: reshuffleBoard_def split: option.splits sum.splits)

text \<open>
  C7, as stated: the reshuffle ends on every board, with a board or with
  \<^verbatim>\<open>UnsolvableBoard\<close>. On the board of one blue gem \<^verbatim>\<open>reshuffleBoard\<close> never returns.
\<close>

theorem C7_reshuffle_one_cell_never_returns: "reshuffleBoard countUp oneCell = None"
  by (rule reshuffleBoard_single) (simp add: singleCell_def oneCell_def)

text \<open>
  C7, amended: the retry loop of \<^verbatim>\<open>reshuffleBoard\<close> has no bound on its attempts and no
  failure of its own; it shuffles again for as long as no valid move is found or a match
  is on the board. On every board of a single cell, whatever the cell holds and whatever
  numbers are drawn, no valid move is found after any shuffle and the reshuffle never
  returns.
\<close>

theorem C7_reshuffle_single_cell_unbounded:
  assumes "width s = 1" and "height s = 1" and "gems s = [[c]]"
  shows "reshuffleBoard rnd s = None"
  by (rule reshuffleBoard_single) (simp add: singleCell_def assms)

theorem C7_reshuffle_single_cell_unbounded_witness: "reshuffleBoard draws oneRedCell = None"
proof -
  have "width oneRedCell = 1" "height oneRedCell = 1" "gems oneRedCell = [[Some 0]]"
    by (simp_all add: oneRedCell_def)
  then show ?thesis by (rule C7_reshuffle_single_cell_unbounded)
qed

end
